theory Spec2Isabelle
  imports Complex_Main
begin

section \<open>Regression performance metrics of evidently (v2 metrics)\<close>

text \<open>
  The development embeds \<^verbatim>\<open>src/evidently/v2/metrics/regression_performance_metrics.py\<close>:
  the method \<^verbatim>\<open>RegressionPerformanceMetrics.calculate\<close> and the module function
  \<^verbatim>\<open>_me_mae_distr\<close> (here \<open>me_mae_distr\<close>: an Isabelle name cannot start with an
  underscore).

  Conventions of the embedding.
  \<^item> A Python float is a \<open>real option\<close>: \<open>None\<close> is NaN (a missing value), \<open>Some x\<close> is
    the number \<open>x\<close>. Arithmetic is exact: the rounding of floating-point operations and
    infinities are not modelled.
  \<^item> An exception is the \<open>Inl\<close> of a sum; the value \<open>Inr\<close>.
  \<^item> A data frame is an object in a store, named by its address; \<^verbatim>\<open>df.copy()\<close>
    allocates a new object and \<^verbatim>\<open>df[name] = col\<close> updates the object addressed.
  \<^item> The calls into numpy, pandas and scikit-learn are modelled after the behaviour of
    these libraries for the argument shapes that occur in the source.
\<close>

subsection \<open>Values, errors, data frames\<close>

datatype error = ValueError string | KeyError string | TypeError string

type_synonym pyfloat = "real option"

text \<open>
  An index label: an entry of a pandas index. \<open>Interval l r\<close> is the interval \<open>(l, r]\<close>,
  \<open>Scalar v\<close> a plain number.
\<close>

datatype label = Interval real real | Scalar real

text \<open>
  A column is numeric (floats, NaN for a missing value) or categorical: the list of
  categories and, for every row, the position of its category (\<open>None\<close> for NaN).
\<close>

datatype column = Num "pyfloat list" | Cat "label list" "nat option list"

type_synonym dataframe = "(string \<times> column) list"

fun dropna :: "'a option list \<Rightarrow> 'a list" where
  "dropna [] = []"
| "dropna (None # xs) = dropna xs"
| "dropna (Some v # xs) = v # dropna xs"

text \<open>\<^verbatim>\<open>df[name]\<close>: the column, or \<^verbatim>\<open>KeyError\<close>.\<close>

definition getitem :: "dataframe \<Rightarrow> string \<Rightarrow> error + column" where
  "getitem df name = (case map_of df name of None \<Rightarrow> Inl (KeyError name) | Some c \<Rightarrow> Inr c)"

text \<open>\<^verbatim>\<open>df[name] = col\<close>: replaces the column of that name, or appends a new one.\<close>

fun setitem :: "dataframe \<Rightarrow> string \<Rightarrow> column \<Rightarrow> dataframe" where
  "setitem [] name col = [(name, col)]"
| "setitem ((k, c) # df) name col =
     (if k = name then (k, col) # df else (k, c) # setitem df name col)"

text \<open>The floats of a column; arithmetic on a categorical column raises \<^verbatim>\<open>TypeError\<close>.\<close>

definition as_float :: "column \<Rightarrow> error + pyfloat list" where
  "as_float c = (case c of Num xs \<Rightarrow> Inr xs
     | Cat cats codes \<Rightarrow> Inl (TypeError ''categorical is not numeric''))"

text \<open>The rows of a frame selected by a boolean mask.\<close>

definition mask_list :: "bool list \<Rightarrow> 'a list \<Rightarrow> 'a list" where
  "mask_list keep xs = map snd (filter fst (zip keep xs))"

definition select_rows :: "bool list \<Rightarrow> dataframe \<Rightarrow> dataframe" where
  "select_rows keep df =
     map (\<lambda>(k, c). (k, case c of Num xs \<Rightarrow> Num (mask_list keep xs)
                             | Cat cats codes \<Rightarrow> Cat cats (mask_list keep codes))) df"

subsection \<open>The store of data frames\<close>

record store =
  frames :: "nat \<Rightarrow> dataframe"
  fresh :: nat

text \<open>\<^verbatim>\<open>df.copy()\<close>: a new object with the same columns.\<close>

definition df_copy :: "store \<Rightarrow> nat \<Rightarrow> nat \<times> store" where
  "df_copy s a = (fresh s, s\<lparr>frames := (frames s)(fresh s := frames s a), fresh := Suc (fresh s)\<rparr>)"

text \<open>\<^verbatim>\<open>df[name] = col\<close> on the object at address \<open>a\<close>.\<close>

definition df_setitem :: "store \<Rightarrow> nat \<Rightarrow> string \<Rightarrow> column \<Rightarrow> store" where
  "df_setitem s a name col = s\<lparr>frames := (frames s)(a := setitem (frames s a) name col)\<rparr>"

subsection \<open>numpy\<close>

text \<open>
  \<^verbatim>\<open>np.linspace(start, stop, num)\<close> with the end point: \<open>num\<close> evenly spaced numbers,
  the last of them \<open>stop\<close>.
\<close>

definition np_linspace :: "real \<Rightarrow> real \<Rightarrow> nat \<Rightarrow> real list" where
  "np_linspace start stop num =
     map (\<lambda>i. start + real i * ((stop - start) / real (num - 1))) [0..<num]"

definition np_mean :: "real list \<Rightarrow> real" where
  "np_mean x = sum_list x / real (length x)"

definition np_std :: "real list \<Rightarrow> real" where
  "np_std x = sqrt (np_mean (map (\<lambda>v. (v - np_mean x)\<^sup>2) x))"

definition ptp :: "real list \<Rightarrow> real" where
  "ptp x = Max (set x) - Min (set x)"

text \<open>
  The bin width of Doane's rule (\<^verbatim>\<open>numpy.lib.histograms._hist_bin_doane\<close>); \<open>0\<close> stands
  for "no width": at most two values, or no spread.
\<close>

definition hist_bin_doane :: "real list \<Rightarrow> real" where
  "hist_bin_doane x =
     (if 2 < length x then
        (let n = real (length x);
             sg1 = sqrt (6 * (n - 2) / ((n + 1) * (n + 3)));
             sigma = np_std x
         in if 0 < sigma then
              (let g1 = np_mean (map (\<lambda>v. ((v - np_mean x) / sigma) ^ 3) x)
               in ptp x / (1 + log 2 n + log 2 (1 + \<bar>g1\<bar> / sg1)))
            else 0)
      else 0)"

text \<open>
  \<^verbatim>\<open>_get_outer_edges\<close> with no range given: the minimum and maximum of the data, which
  must be finite (a NaN in the data makes the minimum NaN); an empty range is widened.
\<close>

definition get_outer_edges :: "pyfloat list \<Rightarrow> error + real \<times> real" where
  "get_outer_edges a =
     (if a = [] then Inr (0, 1)
      else if None \<in> set a then Inl (ValueError ''autodetected range is not finite'')
      else (let first_edge = Min (set (dropna a)); last_edge = Max (set (dropna a))
            in if first_edge = last_edge then Inr (first_edge - 1 / 2, last_edge + 1 / 2)
               else Inr (first_edge, last_edge)))"

text \<open>\<^verbatim>\<open>np.histogram_bin_edges(a, bins="doane")\<close>.\<close>

definition np_histogram_bin_edges :: "pyfloat list \<Rightarrow> error + real list" where
  "np_histogram_bin_edges a =
     (case get_outer_edges a of Inl e \<Rightarrow> Inl e
      | Inr (first_edge, last_edge) \<Rightarrow>
          (let n_equal_bins =
                 (if a = [] then 1
                  else (let width = hist_bin_doane (dropna a)
                        in if width \<noteq> 0 then nat \<lceil>(last_edge - first_edge) / width\<rceil> else 1))
           in Inr (np_linspace first_edge last_edge (n_equal_bins + 1))))"

text \<open>
  The counts of \<^verbatim>\<open>np.histogram\<close> for given edges: every bin is half open \<open>[l, r)\<close> but the
  last, which is closed \<open>[l, r]\<close>.
\<close>

fun hist_counts :: "real list \<Rightarrow> real list \<Rightarrow> nat list" where
  "hist_counts xs (l # r # []) = [length (filter (\<lambda>x. l \<le> x \<and> x \<le> r) xs)]"
| "hist_counts xs (l # r # es) = length (filter (\<lambda>x. l \<le> x \<and> x < r) xs) # hist_counts xs (r # es)"
| "hist_counts xs es = []"

text \<open>
  \<^verbatim>\<open>np.histogram(a, bins=edges)\<close>: the pair of the counts and the edges. A NaN compares
  false with every edge and is counted nowhere.
\<close>

definition np_histogram :: "pyfloat list \<Rightarrow> real list \<Rightarrow> error + nat list \<times> real list" where
  "np_histogram a edges =
     (if \<not> sorted edges then Inl (ValueError ''bins must increase monotonically, when an array'')
      else Inr (hist_counts (dropna a) edges, edges))"

subsection \<open>pandas\<close>

text \<open>\<^verbatim>\<open>Series.nunique(dropna=True)\<close>: the number of distinct values that are not missing.\<close>

definition nunique :: "column \<Rightarrow> nat" where
  "nunique c = (case c of Num xs \<Rightarrow> length (remdups (dropna xs))
     | Cat cats codes \<Rightarrow> length (remdups (dropna codes)))"

text \<open>The difference of two floats; NaN propagates.\<close>

definition sub_float :: "pyfloat \<Rightarrow> pyfloat \<Rightarrow> pyfloat" where
  "sub_float x y =
     (case x of None \<Rightarrow> None
      | Some u \<Rightarrow> (case y of None \<Rightarrow> None | Some v \<Rightarrow> Some (u - v)))"

text \<open>The difference of two numeric series of one frame, row by row.\<close>

definition series_sub :: "column \<Rightarrow> column \<Rightarrow> error + pyfloat list" where
  "series_sub a b =
     (case as_float a of Inl e \<Rightarrow> Inl e
      | Inr xs \<Rightarrow>
     (case as_float b of Inl e \<Rightarrow> Inl e
      | Inr ys \<Rightarrow> Inr (map (\<lambda>(x, y). sub_float x y) (zip xs ys))))"

text \<open>
  The category of one value for given bin edges (\<^verbatim>\<open>_bins_to_cuts\<close> with
  \<^verbatim>\<open>right=True\<close>): \<^verbatim>\<open>searchsorted(side="left")\<close> counts the edges below the value; a
  value below or at the first edge, above the last edge, or missing has no category.
\<close>

definition cut_code :: "real list \<Rightarrow> pyfloat \<Rightarrow> nat option" where
  "cut_code edges v =
     (case v of None \<Rightarrow> None
      | Some x \<Rightarrow> (let ids = length (filter (\<lambda>e. e < x) edges)
                  in if ids = length edges \<or> ids = 0 then None else Some (ids - 1)))"

text \<open>
  \<^verbatim>\<open>np.rint\<close>: the nearest integer, and of two that are equally near the even one.
\<close>

definition np_rint :: "real \<Rightarrow> int" where
  "np_rint x =
     (let f = \<lfloor>x\<rfloor>; d = x - of_int f
      in if d < 1 / 2 then f else if 1 / 2 < d then f + 1 else if even f then f else f + 1)"

text \<open>\<^verbatim>\<open>np.around(x, decimals)\<close> for a number of decimals that is not negative.\<close>

definition np_around :: "real \<Rightarrow> nat \<Rightarrow> real" where
  "np_around x decimals = of_int (np_rint (x * 10 ^ decimals)) / 10 ^ decimals"

text \<open>
  \<^verbatim>\<open>_round_frac(x, precision)\<close>: a number with an integer part is rounded to \<open>precision\<close>
  decimals, a number below 1 in absolute value to \<open>precision\<close> significant digits, and 0 is
  left as it is.
\<close>

definition round_frac :: "real \<Rightarrow> nat \<Rightarrow> real" where
  "round_frac x precision =
     (if x = 0 then x
      else (let digits = (if \<bar>x\<bar> < 1 then nat (- \<lfloor>log 10 \<bar>x\<bar>\<rfloor> - 1) + precision
                          else precision)
            in np_around x digits))"

text \<open>
  \<^verbatim>\<open>_infer_precision(base_precision, bins)\<close>: the first precision from the base precision
  up to 19 at which the rounded edges are all different, and the base precision when
  there is none.
\<close>

definition infer_precision :: "nat \<Rightarrow> real list \<Rightarrow> nat" where
  "infer_precision base_precision bins =
     (case List.find (\<lambda>precision. distinct (map (\<lambda>b. round_frac b precision) bins))
             [base_precision..<20] of
        None \<Rightarrow> base_precision
      | Some precision \<Rightarrow> precision)"

text \<open>\<^verbatim>\<open>IntervalIndex.from_breaks(breaks, closed="right")\<close>: the intervals between neighbours.\<close>

definition from_breaks :: "real list \<Rightarrow> label list" where
  "from_breaks breaks = map (\<lambda>(l, r). Interval l r) (zip (butlast breaks) (tl breaks))"

text \<open>
  \<^verbatim>\<open>_format_labels(bins, precision, right=True, include_lowest=False)\<close>: the labels of the
  bins are the intervals between the rounded edges.
\<close>

definition format_labels :: "real list \<Rightarrow> nat \<Rightarrow> label list" where
  "format_labels bins precision =
     (let p = infer_precision precision bins
      in from_breaks (map (\<lambda>b. round_frac b p) bins))"

text \<open>
  \<^verbatim>\<open>_bins_to_cuts(x, bins)\<close> with the default \<open>precision=3\<close>: the categorical column of the
  labels, with the category of every value. Labels repeat only when no precision up to
  19 tells two edges apart. Two doubles that differ are always told apart, so for a
  frame of floats this does not happen; the reals of the model can be that close, and
  the model then raises (pandas would build the categories from the distinct labels).
\<close>

definition bins_to_cuts :: "pyfloat list \<Rightarrow> real list \<Rightarrow> error + column" where
  "bins_to_cuts x bins =
     (if \<not> distinct bins \<and> length bins \<noteq> 2 then Inl (ValueError ''Bin edges must be unique'')
      else (let labels = format_labels bins 3
            in if \<not> distinct labels then Inl (ValueError ''Categorical categories must be unique'')
               else Inr (Cat labels (map (cut_code bins) x))))"

text \<open>
  The edges of \<^verbatim>\<open>pd.cut(x, bins)\<close> for a number of bins, from the values that are not
  missing: equal-width bins over their range. A range of one point is widened by 0.1
  percent of the value on both sides; otherwise the first edge is lowered by 0.1 percent
  of the range, so that the minimum falls into the first bin.
\<close>

definition cut_edges :: "real list \<Rightarrow> nat \<Rightarrow> real list" where
  "cut_edges vs bins =
     (let mn = Min (set vs); mx = Max (set vs)
      in if mn = mx then
           np_linspace (mn - (if mn \<noteq> 0 then 1 / 1000 * \<bar>mn\<bar> else 1 / 1000))
                       (mx + (if mx \<noteq> 0 then 1 / 1000 * \<bar>mx\<bar> else 1 / 1000))
                       (bins + 1)
         else (let edges = np_linspace mn mx (bins + 1);
                   adj = (mx - mn) * (1 / 1000)
               in edges[0 := edges ! 0 - adj]))"

text \<open>
  \<^verbatim>\<open>pd.cut(x, bins)\<close> for a number of bins. The call in \<open>me_mae_distr\<close> passes at least
  one bin only when some value is not missing; the branch for a series of missing
  values alone stands for pandas' failure on edges that are all NaN.
\<close>

definition pd_cut :: "column \<Rightarrow> nat \<Rightarrow> error + column" where
  "pd_cut c bins =
     (case as_float c of Inl e \<Rightarrow> Inl e
      | Inr x \<Rightarrow>
          if bins < 1 then Inl (ValueError ''bins should be a positive integer.'')
          else if x = [] then Inl (ValueError ''Cannot cut empty array'')
          else if dropna x = [] then Inl (ValueError ''Bin edges must be unique'')
          else bins_to_cuts x (cut_edges (dropna x) bins))"

text \<open>
  The groups of a grouping column, in the order of the result index, each with the mask
  of its rows. A categorical column yields one group per category, in category order,
  whether or not a row has the category (\<^verbatim>\<open>observed=False\<close>, the default); a numeric
  column one group per distinct value, ascending. A row with a missing key is in no group.
\<close>

definition group_keys :: "column \<Rightarrow> (label \<times> bool list) list" where
  "group_keys c =
     (case c of
        Cat cats codes \<Rightarrow> map (\<lambda>i. (cats ! i, map (\<lambda>k. k = Some i) codes)) [0..<length cats]
      | Num xs \<Rightarrow> map (\<lambda>v. (Scalar v, map (\<lambda>k. k = Some v) xs)) (sort (remdups (dropna xs))))"

fun traverse :: "('a \<Rightarrow> error + 'b) \<Rightarrow> 'a list \<Rightarrow> error + 'b list" where
  "traverse f [] = Inr []"
| "traverse f (x # xs) =
     (case f x of Inl e \<Rightarrow> Inl e
      | Inr y \<Rightarrow> (case traverse f xs of Inl e \<Rightarrow> Inl e | Inr ys \<Rightarrow> Inr (y # ys)))"

text \<open>
  \<^verbatim>\<open>df.groupby(by).apply(f)\<close> for a function that returns a number: \<open>f\<close> is called on the
  rows of every group in turn, also on a group without rows, and an exception of \<open>f\<close>
  ends the call. The result is a series indexed by the group labels.
\<close>

definition groupby_apply ::
  "dataframe \<Rightarrow> string \<Rightarrow> (dataframe \<Rightarrow> error + real) \<Rightarrow> error + (label \<times> real) list" where
  "groupby_apply df by f =
     (case getitem df by of Inl e \<Rightarrow> Inl e
      | Inr c \<Rightarrow>
          traverse (\<lambda>(l, keep). case f (select_rows keep df) of Inl e \<Rightarrow> Inl e
                                 | Inr v \<Rightarrow> Inr (l, v)) (group_keys c))"

text \<open>\<^verbatim>\<open>series[idx]\<close> for a label of the index.\<close>

definition series_loc :: "(label \<times> 'a) list \<Rightarrow> label \<Rightarrow> error + 'a" where
  "series_loc ser idx = (case map_of ser idx of None \<Rightarrow> Inl (KeyError ''label'') | Some v \<Rightarrow> Inr v)"

text \<open>
  \<^verbatim>\<open>series.value_counts().sort_index()\<close>: for a categorical series the count of every
  category, also of one that no row has, in category order; for a numeric series the
  count of every distinct value, ascending. Missing values are not counted.
\<close>

definition value_counts_sort_index :: "column \<Rightarrow> (label \<times> nat) list" where
  "value_counts_sort_index c = map (\<lambda>(l, keep). (l, length (filter id keep))) (group_keys c)"

subsection \<open>scikit-learn\<close>

text \<open>
  \<^verbatim>\<open>_check_reg_targets\<close>: both arrays have the same length, at least one sample, and no
  NaN.
\<close>

definition check_reg_targets :: "column \<Rightarrow> column \<Rightarrow> error + real list \<times> real list" where
  "check_reg_targets y_true y_pred =
     (case as_float y_true of Inl e \<Rightarrow> Inl e
      | Inr ts \<Rightarrow>
     (case as_float y_pred of Inl e \<Rightarrow> Inl e
      | Inr ps \<Rightarrow>
          if length ts \<noteq> length ps then
            Inl (ValueError ''Found input variables with inconsistent numbers of samples'')
          else if None \<in> set ts \<or> None \<in> set ps then Inl (ValueError ''Input contains NaN'')
          else if ts = [] then
            Inl (ValueError ''Found array with 0 sample(s) while a minimum of 1 is required.'')
          else Inr (dropna ts, dropna ps)))"

definition mean_absolute_error :: "column \<Rightarrow> column \<Rightarrow> error + real" where
  "mean_absolute_error y_true y_pred =
     (case check_reg_targets y_true y_pred of Inl e \<Rightarrow> Inl e
      | Inr (ts, ps) \<Rightarrow> Inr (np_mean (map (\<lambda>(t, p). \<bar>p - t\<bar>) (zip ts ps))))"

definition mean_squared_error :: "column \<Rightarrow> column \<Rightarrow> error + real" where
  "mean_squared_error y_true y_pred =
     (case check_reg_targets y_true y_pred of Inl e \<Rightarrow> Inl e
      | Inr (ts, ps) \<Rightarrow> Inr (np_mean (map (\<lambda>(t, p). (t - p)\<^sup>2) (zip ts ps))))"

text \<open>
  \<^verbatim>\<open>r2_score\<close>: NaN for fewer than two samples; for a constant target 1 when the
  predictions are exact and 0 otherwise.
\<close>

definition r2_score_fn :: "column \<Rightarrow> column \<Rightarrow> error + pyfloat" where
  "r2_score_fn y_true y_pred =
     (case check_reg_targets y_true y_pred of Inl e \<Rightarrow> Inl e
      | Inr (ts, ps) \<Rightarrow>
          if length ps < 2 then Inr None
          else (let numerator = sum_list (map (\<lambda>(t, p). (t - p)\<^sup>2) (zip ts ps));
                    denominator = sum_list (map (\<lambda>t. (t - np_mean ts)\<^sup>2) ts)
                in if denominator \<noteq> 0 \<and> numerator \<noteq> 0 then Inr (Some (1 - numerator / denominator))
                   else if numerator \<noteq> 0 then Inr (Some 0)
                   else Inr (Some 1)))"

subsection \<open>The collaborators of the metric\<close>

text \<open>
  \<^verbatim>\<open>ColumnMapping\<close>, \<^verbatim>\<open>InputData\<close> and the analyzer with its result classes are imported by
  the source; of each the model has the attributes that the source reads. A data set
  of \<^verbatim>\<open>InputData\<close> is the address of its frame. The dictionaries of the analyzer are
  values of a type \<open>'d\<close> of which nothing is assumed.
\<close>

record ColumnMapping =
  target :: string
  prediction :: string

record InputData =
  reference_data :: "nat option"
  current_data :: "nat option"
  column_mapping :: ColumnMapping

record 'd AnalyzerMetrics =
  mean_error :: pyfloat
  mean_abs_error :: pyfloat
  mean_abs_perc_error :: pyfloat
  abs_error_max :: pyfloat
  error_std :: pyfloat
  abs_error_std :: pyfloat
  abs_perc_error_std :: pyfloat
  error_normality :: 'd
  underperformance :: 'd

record 'd RegressionPerformanceAnalyzerResults =
  reference_metrics :: "'d AnalyzerMetrics"
  error_bias :: "'d option"

text \<open>
  \<^verbatim>\<open>RegressionPerformanceAnalyzer.calculate(reference_data, current_data, column_mapping)\<close>:
  the analyzer is a parameter of the model, a function of the frames it is given, which
  it is taken to leave as they are.
\<close>

type_synonym 'd analyzer =
  "dataframe \<Rightarrow> dataframe option \<Rightarrow> ColumnMapping \<Rightarrow> error + 'd RegressionPerformanceAnalyzerResults"


subsection \<open>The result record\<close>

record 'd RegressionPerformanceMetricsResults =
  r2_score :: pyfloat
  rmsa :: pyfloat
  mean_error :: pyfloat
  me_distr :: "(real \<times> nat) list"
  ref_me_distr :: "(real \<times> nat) list option"
  mean_abs_error :: pyfloat
  mae_distr :: "(label \<times> real \<times> nat) list"
  ref_mae_distr :: "(label \<times> real \<times> nat) list option"
  mean_abs_perc_error :: pyfloat
  abs_error_max :: pyfloat
  error_std :: pyfloat
  abs_error_std :: pyfloat
  abs_perc_error_std :: pyfloat
  error_normality :: 'd
  underperformance :: 'd
  error_bias :: "'d option"

text \<open>
  A function of the target and the prediction column of a frame, the columns that the
  column mapping names; a column that the frame does not have raises \<^verbatim>\<open>KeyError\<close>.
\<close>

definition with_columns ::
  "(column \<Rightarrow> column \<Rightarrow> error + 'a) \<Rightarrow> dataframe \<Rightarrow> ColumnMapping \<Rightarrow> error + 'a" where
  "with_columns f df cm =
     (case getitem df (target cm) of Inl e \<Rightarrow> Inl e
      | Inr y_true \<Rightarrow>
     (case getitem df (prediction cm) of Inl e \<Rightarrow> Inl e
      | Inr y_pred \<Rightarrow> f y_true y_pred))"

subsection \<open>The distribution binner \<^verbatim>\<open>_me_mae_distr\<close>\<close>

text \<open>
  Lines 92 and 93, the value assigned to the column \<^verbatim>\<open>target_binned\<close>: the target cut
  into \<open>min (count_uniq_values, 10)\<close> bins.
\<close>

definition target_binned :: "dataframe \<Rightarrow> ColumnMapping \<Rightarrow> error + column" where
  "target_binned df cm =
     (case getitem df (target cm) of Inl e \<Rightarrow> Inl e
      | Inr c \<Rightarrow> (let count_uniq_values = nunique c in pd_cut c (min count_uniq_values 10)))"

text \<open>
  The function applied to every group (line 100): the mean absolute error of the
  group's target and prediction columns.
\<close>

definition group_mae :: "ColumnMapping \<Rightarrow> dataframe \<Rightarrow> error + real" where
  "group_mae cm x = with_columns mean_absolute_error x cm"

text \<open>
  The first list of line 103: the counts zipped with the edges, each pair turned round.
  There is one edge more than there are counts, and \<^verbatim>\<open>zip\<close> drops the last edge.
\<close>

definition me_entries :: "nat list \<Rightarrow> real list \<Rightarrow> (real \<times> nat) list" where
  "me_entries counts edges = map (\<lambda>(x, y). (y, x)) (zip counts edges)"

text \<open>
  Lines 95 to 104, which only read the local frame: the histogram of the signed error
  and the mean absolute error and row count of every target bin.
\<close>

definition distributions ::
  "dataframe \<Rightarrow> ColumnMapping \<Rightarrow> error + (real \<times> nat) list \<times> (label \<times> real \<times> nat) list" where
  "distributions df cm =
     (case with_columns series_sub df cm of Inl e \<Rightarrow> Inl e
      | Inr data \<Rightarrow>
     (case np_histogram_bin_edges data of Inl e \<Rightarrow> Inl e
      | Inr me_bins \<Rightarrow>
     (case np_histogram data me_bins of Inl e \<Rightarrow> Inl e
      | Inr me_hist \<Rightarrow>
     (case groupby_apply df ''target_binned'' (group_mae cm) of Inl e \<Rightarrow> Inl e
      | Inr mae \<Rightarrow>
     (case getitem df ''target_binned'' of Inl e \<Rightarrow> Inl e
      | Inr tb \<Rightarrow>
     (let mae_hist = value_counts_sort_index tb
      in case traverse (\<lambda>(idx, val). case series_loc mae idx of Inl e \<Rightarrow> Inl e
                                      | Inr m \<Rightarrow> Inr (idx, m, val)) mae_hist of
           Inl e \<Rightarrow> Inl e
         | Inr entries \<Rightarrow>
             Inr (me_entries (fst me_hist) (snd me_hist), entries)))))))"

text \<open>
  \<^verbatim>\<open>_me_mae_distr(df, column_mapping)\<close>: the frame at address \<open>df0\<close> is copied (line 91),
  the copy gets the column \<^verbatim>\<open>target_binned\<close> (line 93), and the distributions are
  computed from the copy. The result comes with the store the call leaves behind.
\<close>

definition me_mae_distr ::
  "store \<Rightarrow> nat \<Rightarrow> ColumnMapping
     \<Rightarrow> (error + (real \<times> nat) list \<times> (label \<times> real \<times> nat) list) \<times> store" where
  "me_mae_distr s df0 cm =
     (case df_copy s df0 of
        (df, s1) \<Rightarrow>
          (case target_binned (frames s1 df) cm of
             Inl e \<Rightarrow> (Inl e, s1)
           | Inr tb \<Rightarrow>
               (let s2 = df_setitem s1 df ''target_binned'' tb
                in (distributions (frames s2 df) cm, s2))))"

subsection \<open>The metric \<^verbatim>\<open>RegressionPerformanceMetrics.calculate\<close>\<close>

text \<open>Lines 45 to 56: the call of the analyzer, with the current data as reference when there is none.\<close>

definition analyze ::
  "'d analyzer \<Rightarrow> store \<Rightarrow> nat \<Rightarrow> nat option \<Rightarrow> ColumnMapping
     \<Rightarrow> error + 'd RegressionPerformanceAnalyzerResults" where
  "analyze an s cur reference cm =
     (case reference of
        None \<Rightarrow> an (frames s cur) None cm
      | Some ref \<Rightarrow> an (frames s ref) (Some (frames s cur)) cm)"

text \<open>Lines 67 and 68: the distributions of the reference data, or \<^verbatim>\<open>(None, None)\<close>.\<close>

definition ref_distr ::
  "store \<Rightarrow> nat option \<Rightarrow> ColumnMapping
     \<Rightarrow> (error + (real \<times> nat) list option \<times> (label \<times> real \<times> nat) list option) \<times> store" where
  "ref_distr s reference cm =
     (case reference of
        None \<Rightarrow> (Inr (None, None), s)
      | Some ref \<Rightarrow>
          (case me_mae_distr s ref cm of
             (Inl e, s') \<Rightarrow> (Inl e, s')
           | (Inr (me, mae), s') \<Rightarrow> (Inr (Some me, Some mae), s')))"

text \<open>Lines 70 to 87: the result record.\<close>

definition results ::
  "'d RegressionPerformanceAnalyzerResults \<Rightarrow> pyfloat \<Rightarrow> real
     \<Rightarrow> (real \<times> nat) list \<Rightarrow> (label \<times> real \<times> nat) list
     \<Rightarrow> (real \<times> nat) list option \<Rightarrow> (label \<times> real \<times> nat) list option
     \<Rightarrow> 'd RegressionPerformanceMetricsResults" where
  "results analyzer_results r2_score_value rmsa_score_value me mae ref_me ref_mae =
     \<lparr>r2_score = r2_score_value,
      rmsa = Some rmsa_score_value,
      mean_error = AnalyzerMetrics.mean_error (reference_metrics analyzer_results),
      me_distr = me,
      ref_me_distr = ref_me,
      mean_abs_error = AnalyzerMetrics.mean_abs_error (reference_metrics analyzer_results),
      mae_distr = mae,
      ref_mae_distr = ref_mae,
      mean_abs_perc_error = AnalyzerMetrics.mean_abs_perc_error (reference_metrics analyzer_results),
      abs_error_max = AnalyzerMetrics.abs_error_max (reference_metrics analyzer_results),
      error_std = AnalyzerMetrics.error_std (reference_metrics analyzer_results),
      abs_error_std = AnalyzerMetrics.abs_error_std (reference_metrics analyzer_results),
      abs_perc_error_std = AnalyzerMetrics.abs_perc_error_std (reference_metrics analyzer_results),
      error_normality = AnalyzerMetrics.error_normality (reference_metrics analyzer_results),
      underperformance = AnalyzerMetrics.underperformance (reference_metrics analyzer_results),
      error_bias = RegressionPerformanceAnalyzerResults.error_bias analyzer_results\<rparr>"

text \<open>
  \<^verbatim>\<open>calculate(self, data, metrics)\<close>; the analyzer \<^verbatim>\<open>self.analyzer\<close> is the first argument.
  The result comes with the store the call leaves behind.
\<close>

definition calculate ::
  "'d analyzer \<Rightarrow> store \<Rightarrow> InputData \<Rightarrow> 'm
     \<Rightarrow> (error + 'd RegressionPerformanceMetricsResults) \<times> store" where
  "calculate an s data metrics =
     (case current_data data of
        None \<Rightarrow> (Inl (ValueError ''current dataset should be present''), s)
      | Some cur \<Rightarrow>
     (case analyze an s cur (reference_data data) (column_mapping data) of
        Inl e \<Rightarrow> (Inl e, s)
      | Inr analyzer_results \<Rightarrow>
     (case with_columns r2_score_fn (frames s cur) (column_mapping data) of
        Inl e \<Rightarrow> (Inl e, s)
      | Inr r2_score_value \<Rightarrow>
     (case with_columns mean_squared_error (frames s cur) (column_mapping data) of
        Inl e \<Rightarrow> (Inl e, s)
      | Inr rmsa_score_value \<Rightarrow>
     (case me_mae_distr s cur (column_mapping data) of
        (Inl e, s1) \<Rightarrow> (Inl e, s1)
      | (Inr (me, mae), s1) \<Rightarrow>
     (case ref_distr s1 (reference_data data) (column_mapping data) of
        (Inl e, s2) \<Rightarrow> (Inl e, s2)
      | (Inr (ref_me, ref_mae), s2) \<Rightarrow>
          (Inr (results analyzer_results r2_score_value rmsa_score_value me mae ref_me ref_mae),
           s2)))))))"

subsection \<open>Notions of the statements\<close>

text \<open>
  What \<open>me_mae_distr\<close> returns, as a function of the frame it is given: the columns of
  the copy are those of the frame, with \<^verbatim>\<open>target_binned\<close> set.
\<close>

definition binner ::
  "dataframe \<Rightarrow> ColumnMapping \<Rightarrow> error + (real \<times> nat) list \<times> (label \<times> real \<times> nat) list" where
  "binner df cm =
     (case target_binned df cm of Inl e \<Rightarrow> Inl e
      | Inr tb \<Rightarrow> distributions (setitem df ''target_binned'' tb) cm)"

text \<open>What \<open>calculate\<close> returns for a current frame, as a function of the frames.\<close>

definition calculate_value ::
  "'d analyzer \<Rightarrow> dataframe \<Rightarrow> dataframe option \<Rightarrow> ColumnMapping
     \<Rightarrow> error + 'd RegressionPerformanceMetricsResults" where
  "calculate_value an cur reference cm =
     (case (case reference of None \<Rightarrow> an cur None cm | Some ref \<Rightarrow> an ref (Some cur) cm) of
        Inl e \<Rightarrow> Inl e
      | Inr analyzer_results \<Rightarrow>
     (case with_columns r2_score_fn cur cm of Inl e \<Rightarrow> Inl e
      | Inr r2_score_value \<Rightarrow>
     (case with_columns mean_squared_error cur cm of Inl e \<Rightarrow> Inl e
      | Inr rmsa_score_value \<Rightarrow>
     (case binner cur cm of Inl e \<Rightarrow> Inl e
      | Inr (me, mae) \<Rightarrow>
     (case reference of
        None \<Rightarrow> Inr (results analyzer_results r2_score_value rmsa_score_value me mae None None)
      | Some ref \<Rightarrow>
          (case binner ref cm of Inl e \<Rightarrow> Inl e
           | Inr (ref_me, ref_mae) \<Rightarrow>
               Inr (results analyzer_results r2_score_value rmsa_score_value me mae
                      (Some ref_me) (Some ref_mae))))))))"

text \<open>
  The values of bin \<open>i\<close> of a histogram with the given edges: from the left edge up to
  the right edge, which belongs to the last bin only.
\<close>

definition in_hist_bin :: "real list \<Rightarrow> nat \<Rightarrow> real \<Rightarrow> bool" where
  "in_hist_bin edges i x =
     (edges ! i \<le> x \<and> (if i + 2 = length edges then x \<le> edges ! (i + 1) else x < edges ! (i + 1)))"

text \<open>The edges of the target bins of \<open>me_mae_distr\<close>, for the values of the target column.\<close>

definition target_edges :: "pyfloat list \<Rightarrow> real list" where
  "target_edges ts = cut_edges (dropna ts) (min (nunique (Num ts)) 10)"

text \<open>The number of rows of a column, and a frame all of whose columns have as many rows.\<close>

definition nrows :: "column \<Rightarrow> nat" where
  "nrows c = (case c of Num xs \<Rightarrow> length xs | Cat cats codes \<Rightarrow> length codes)"

definition wf_frame :: "dataframe \<Rightarrow> bool" where
  "wf_frame df = (case df of [] \<Rightarrow> True
     | (k, c) # rest \<Rightarrow> list_all (\<lambda>(k', c'). nrows c' = nrows c) rest)"


subsection \<open>Example inputs\<close>

definition ex_cm :: ColumnMapping where
  "ex_cm = \<lparr>target = ''target'', prediction = ''prediction''\<rparr>"

text \<open>Two rows of (target, prediction): (1, 1) and (2, 1).\<close>

definition ex_current :: dataframe where
  "ex_current = [(''target'', Num [Some 1, Some 2]), (''prediction'', Num [Some 1, Some 1])]"

text \<open>Two rows: (3, 3) and (5, 3).\<close>

definition ex_reference :: dataframe where
  "ex_reference = [(''target'', Num [Some 3, Some 5]), (''prediction'', Num [Some 3, Some 3])]"

text \<open>The five rows of the end-to-end example of the specification.\<close>

definition ex_five :: dataframe where
  "ex_five = [(''target'', Num [Some 1, Some 2, Some 3, Some 4, Some 5]),
              (''prediction'', Num [Some 1, Some 1, Some 5, Some 4, Some 2])]"

text \<open>Three exact predictions whose targets 1, 2, 10 leave the middle one of three bins empty.\<close>

definition ex_gap :: dataframe where
  "ex_gap = [(''target'', Num [Some 1, Some 2, Some 10]),
             (''prediction'', Num [Some 1, Some 2, Some 10])]"


text \<open>
  Four rows, (0, 1), (1, 2), (1, 2) and (2, 3): three distinct targets, one of them
  twice. The inner edges of their three bins, 2/3 and 4/3, are no decimal fractions.
\<close>

definition ex_three :: dataframe where
  "ex_three = [(''target'', Num [Some 0, Some 1, Some 1, Some 2]),
               (''prediction'', Num [Some 1, Some 2, Some 2, Some 3])]"

definition ex_three_distr :: "(real \<times> nat) list \<times> (label \<times> real \<times> nat) list" where
  "ex_three_distr =
     ([(- (3 / 2), 4)],
      [(Interval (- (1 / 500)) (667 / 1000), 1, 1),
       (Interval (667 / 1000) (1333 / 1000), 1, 2),
       (Interval (1333 / 1000) 2, 1, 1)])"

text \<open>
  Thirteen rows whose targets are 1, NaN, 1 and then 2 to 11: eleven distinct targets,
  one of them twice, and a missing one.
\<close>

definition ex_eleven :: dataframe where
  "ex_eleven =
     [(''target'', Num [Some 1, None, Some 1, Some 2, Some 3, Some 4, Some 5, Some 6, Some 7,
                        Some 8, Some 9, Some 10, Some 11]),
      (''prediction'', Num [Some 1, Some 1, Some 1, Some 1, Some 1, Some 1, Some 1, Some 1,
                            Some 1, Some 1, Some 1, Some 1, Some 1])]"

text \<open>A store with one frame, at address 0.\<close>

definition single_store :: "dataframe \<Rightarrow> store" where
  "single_store df = \<lparr>frames = \<lambda>a. df, fresh = 1\<rparr>"

text \<open>A store with the current frame at address 0 and the reference frame at address 1.\<close>

definition ex_store :: store where
  "ex_store = \<lparr>frames = (\<lambda>a. if a = 0 then ex_current else if a = 1 then ex_reference else []),
               fresh = 2\<rparr>"

text \<open>
  An analyzer for the examples: it reports the mean absolute error of its reference
  frame, and an error bias when it is given a current frame.
\<close>

definition ex_analyzer :: "unit analyzer" where
  "ex_analyzer ref cur cm =
     Inr \<lparr>reference_metrics =
            \<lparr>AnalyzerMetrics.mean_error = None,
             AnalyzerMetrics.mean_abs_error =
               (case with_columns mean_absolute_error ref cm of Inl e \<Rightarrow> None | Inr v \<Rightarrow> Some v),
             AnalyzerMetrics.mean_abs_perc_error = None,
             AnalyzerMetrics.abs_error_max = None,
             AnalyzerMetrics.error_std = None,
             AnalyzerMetrics.abs_error_std = None,
             AnalyzerMetrics.abs_perc_error_std = None,
             AnalyzerMetrics.error_normality = (),
             AnalyzerMetrics.underperformance = ()\<rparr>,
          RegressionPerformanceAnalyzerResults.error_bias = map_option (\<lambda>_. ()) cur\<rparr>"


text \<open>The input with both data sets, the input with the current data alone, and their results.\<close>

definition ex_input :: InputData where
  "ex_input = \<lparr>reference_data = Some 1, current_data = Some 0, column_mapping = ex_cm\<rparr>"


definition ex_metrics :: "real \<Rightarrow> unit AnalyzerMetrics" where
  "ex_metrics mae =
     \<lparr>AnalyzerMetrics.mean_error = None,
      AnalyzerMetrics.mean_abs_error = Some mae,
      AnalyzerMetrics.mean_abs_perc_error = None,
      AnalyzerMetrics.abs_error_max = None,
      AnalyzerMetrics.error_std = None,
      AnalyzerMetrics.abs_error_std = None,
      AnalyzerMetrics.abs_perc_error_std = None,
      AnalyzerMetrics.error_normality = (),
      AnalyzerMetrics.underperformance = ()\<rparr>"

definition ex_current_distr :: "(real \<times> nat) list \<times> (label \<times> real \<times> nat) list" where
  "ex_current_distr =
     ([(0, 2)], [(Interval (999 / 1000) (3 / 2), 0, 1), (Interval (3 / 2) 2, 1, 1)])"

definition ex_reference_distr :: "(real \<times> nat) list \<times> (label \<times> real \<times> nat) list" where
  "ex_reference_distr =
     ([(0, 2)], [(Interval (1499 / 500) 4, 0, 1), (Interval 4 5, 2, 1)])"

definition ex_result :: "unit RegressionPerformanceMetricsResults" where
  "ex_result =
     results \<lparr>reference_metrics = ex_metrics 1,
              RegressionPerformanceAnalyzerResults.error_bias = Some ()\<rparr>
       (Some (- 1)) (1 / 2) (fst ex_current_distr) (snd ex_current_distr)
       (Some (fst ex_reference_distr)) (Some (snd ex_reference_distr))"



subsection \<open>The store\<close>

lemma getitem_setitem:
  "getitem (setitem df k c) k' = (if k' = k then Inr c else getitem df k')"
  by (induction df k c rule: setitem.induct) (auto simp: getitem_def)

lemma me_mae_distr_value: "fst (me_mae_distr s df0 cm) = binner (frames s df0) cm"
  by (simp add: me_mae_distr_def binner_def df_copy_def df_setitem_def split: sum.splits)

lemma me_mae_distr_frames:
  "a \<noteq> fresh s \<Longrightarrow> frames (snd (me_mae_distr s df0 cm)) a = frames s a"
  by (simp add: me_mae_distr_def df_copy_def df_setitem_def split: sum.splits)

lemma ref_distr_Some:
  "ref_distr s (Some ref) cm =
     (case fst (me_mae_distr s ref cm) of Inl e \<Rightarrow> Inl e
      | Inr (me, mae) \<Rightarrow> Inr (Some me, Some mae), snd (me_mae_distr s ref cm))"
  by (cases "me_mae_distr s ref cm") (auto simp: ref_distr_def split: sum.splits)

lemma ref_distr_value:
  "fst (ref_distr s reference cm) =
     (case reference of None \<Rightarrow> Inr (None, None)
      | Some ref \<Rightarrow> (case binner (frames s ref) cm of Inl e \<Rightarrow> Inl e
                     | Inr (me, mae) \<Rightarrow> Inr (Some me, Some mae)))"
proof (cases reference)
  case None
  then show ?thesis by (simp add: ref_distr_def)
next
  case (Some ref)
  then show ?thesis by (simp add: ref_distr_Some me_mae_distr_value)
qed

lemma calculate_Some:
  assumes "current_data data = Some cur"
  shows "calculate an s data metrics =
     (case analyze an s cur (reference_data data) (column_mapping data) of
        Inl e \<Rightarrow> (Inl e, s)
      | Inr analyzer_results \<Rightarrow>
     (case with_columns r2_score_fn (frames s cur) (column_mapping data) of
        Inl e \<Rightarrow> (Inl e, s)
      | Inr r2_score_value \<Rightarrow>
     (case with_columns mean_squared_error (frames s cur) (column_mapping data) of
        Inl e \<Rightarrow> (Inl e, s)
      | Inr rmsa_score_value \<Rightarrow>
     (case fst (me_mae_distr s cur (column_mapping data)) of
        Inl e \<Rightarrow> (Inl e, snd (me_mae_distr s cur (column_mapping data)))
      | Inr (me, mae) \<Rightarrow>
     (case fst (ref_distr (snd (me_mae_distr s cur (column_mapping data)))
                 (reference_data data) (column_mapping data)) of
        Inl e \<Rightarrow> (Inl e, snd (ref_distr (snd (me_mae_distr s cur (column_mapping data)))
                 (reference_data data) (column_mapping data)))
      | Inr (ref_me, ref_mae) \<Rightarrow>
          (Inr (results analyzer_results r2_score_value rmsa_score_value me mae ref_me ref_mae),
           snd (ref_distr (snd (me_mae_distr s cur (column_mapping data)))
                 (reference_data data) (column_mapping data))))))))"
proof -
  obtain v1 s1 where m: "me_mae_distr s cur (column_mapping data) = (v1, s1)"
    by (cases "me_mae_distr s cur (column_mapping data)")
  obtain v2 s2 where r: "ref_distr s1 (reference_data data) (column_mapping data) = (v2, s2)"
    by (cases "ref_distr s1 (reference_data data) (column_mapping data)")
  show ?thesis
    by (simp add: calculate_def assms m r split: sum.splits)
qed

lemma calculate_value_eq:
  assumes "current_data data = Some cur"
    and "\<And>ref. reference_data data = Some ref \<Longrightarrow> ref < fresh s"
  shows "fst (calculate an s data metrics) =
           calculate_value an (frames s cur) (map_option (frames s) (reference_data data))
             (column_mapping data)"
proof (cases "reference_data data")
  case None
  show ?thesis
    unfolding calculate_Some [OF assms(1)]
    by (simp add: None calculate_value_def analyze_def me_mae_distr_value ref_distr_value
        split: sum.splits prod.splits)
next
  case (Some ref)
  have "frames (snd (me_mae_distr s cur (column_mapping data))) ref = frames s ref"
    using assms(2) [OF Some] by (simp add: me_mae_distr_frames)
  then show ?thesis
    unfolding calculate_Some [OF assms(1)]
    by (simp add: Some calculate_value_def analyze_def me_mae_distr_value ref_distr_value
        split: sum.splits prod.splits)
qed

lemma upt2: "[0..<2] = [0, 1]" by (simp add: numeral_2_eq_2)
lemma upt3: "[0..<3] = [0, 1, 2]" by (simp add: numeral_3_eq_3)

subsection \<open>Rounding the edges of the labels\<close>

lemma np_rint_of_int: "np_rint (of_int k) = k"
  by (simp add: np_rint_def)

lemma np_rint_numeral: "np_rint (numeral n) = numeral n"
  using np_rint_of_int [of "numeral n"] by simp

lemma floor_log10_tenth:
  assumes "1 / 10 \<le> x" and "x < 1"
  shows "\<lfloor>log 10 x\<rfloor> = - 1"
proof -
  have pos: "0 < x" using assms(1) by simp
  have "log 10 (1 / 10) \<le> log 10 x"
    using assms(1) pos by simp
  moreover have "log 10 (1 / 10) = - 1"
    by (simp add: log_divide)
  moreover have "log 10 x < 0"
    using assms(2) pos by simp
  ultimately show ?thesis
    by (simp add: floor_eq_iff)
qed

lemma round_frac_eval:
  assumes "1 / 10 \<le> \<bar>x\<bar>"
  shows "round_frac x p = of_int (np_rint (x * 10 ^ p)) / 10 ^ p"
proof (cases "\<bar>x\<bar> < 1")
  case True
  have "x \<noteq> 0" using assms by auto
  then show ?thesis
    using True floor_log10_tenth [OF assms True] by (simp add: round_frac_def np_around_def)
next
  case False
  then have "x \<noteq> 0" by auto
  then show ?thesis
    using False by (simp add: round_frac_def np_around_def)
qed

lemma format_labels_first:
  assumes "distinct (map (\<lambda>b. round_frac b 3) bins)"
  shows "format_labels bins 3 = from_breaks (map (\<lambda>b. round_frac b 3) bins)"
proof -
  have "[3..<20] = 3 # [4..<20]"
    by (simp add: upt_conv_Cons)
  then have "infer_precision 3 bins = 3"
    using assms by (simp add: infer_precision_def)
  then show ?thesis
    by (simp add: format_labels_def)
qed

lemma ex_current_labels:
  "format_labels [999 / 1000, 3 / 2, 2] 3 = [Interval (999 / 1000) (3 / 2), Interval (3 / 2) 2]"
  by (simp add: format_labels_first round_frac_eval np_rint_numeral from_breaks_def)

lemma ex_reference_labels:
  "format_labels [1499 / 500, 4, 5] 3 = [Interval (1499 / 500) 4, Interval 4 5]"
  by (simp add: format_labels_first round_frac_eval np_rint_numeral from_breaks_def)

lemma floor_log10_thousandth:
  assumes "1 / 1000 \<le> x" and "x < 1 / 100"
  shows "\<lfloor>log 10 x\<rfloor> = - 3"
proof -
  have pos: "0 < x" using assms(1) by simp
  have a: "log 10 (1 / 1000) = - 3" and b: "log 10 (1 / 100) = - 2"
    using log_pow_cancel [of 10 3] log_pow_cancel [of 10 2] by (simp_all add: log_divide)
  have "log 10 (1 / 1000) \<le> log 10 x"
    using assms(1) pos by simp
  moreover have "log 10 x < log 10 (1 / 100)"
    using assms(2) pos by simp
  ultimately show ?thesis
    unfolding a b by (simp add: floor_eq_iff)
qed

text \<open>
  The edges -0.002, 2/3, 4/3 and 2 of the targets 0, 1 and 2: the labels show them as
  -0.002, 0.667, 1.333 and 2.
\<close>

lemma ex_thirds_labels:
  "format_labels [- (1 / 500), 2 / 3, 4 / 3, 2] 3 =
     [Interval (- (1 / 500)) (667 / 1000), Interval (667 / 1000) (1333 / 1000),
      Interval (1333 / 1000) 2]"
proof -
  have 1: "round_frac (- (1 / 500)) 3 = - (1 / 500)"
    using floor_log10_thousandth [of "1 / 500"]
    by (simp add: round_frac_def np_around_def np_rint_numeral np_rint_def)
  have 2: "round_frac (2 / 3) 3 = 667 / 1000" "round_frac (4 / 3) 3 = 1333 / 1000"
    "round_frac 2 3 = 2"
    by (simp_all add: round_frac_eval np_rint_def)
  show ?thesis
    by (simp add: format_labels_first 1 2 from_breaks_def)
qed

subsection \<open>The example frames\<close>

lemma ex_current_cut: "target_binned ex_current ex_cm =
   Inr (Cat [Interval (999 / 1000) (3 / 2), Interval (3 / 2) 2] [Some 0, Some 1])"
  by (simp add: target_binned_def ex_current_def ex_cm_def getitem_def nunique_def pd_cut_def cut_edges_def as_float_def
      np_linspace_def bins_to_cuts_def ex_current_labels cut_code_def upt3 Let_def)

lemma ex_reference_cut: "target_binned ex_reference ex_cm =
   Inr (Cat [Interval (1499 / 500) 4, Interval 4 5] [Some 0, Some 1])"
  by (simp add: target_binned_def ex_reference_def ex_cm_def getitem_def nunique_def pd_cut_def cut_edges_def as_float_def
      np_linspace_def bins_to_cuts_def ex_reference_labels cut_code_def upt3 Let_def)

lemma ex_edges1: "np_histogram_bin_edges [Some 0, Some 1] = Inr [0, 1]"
  by (simp add: np_histogram_bin_edges_def get_outer_edges_def hist_bin_doane_def np_linspace_def upt2)

lemma ex_edges2: "np_histogram_bin_edges [Some 0, Some 2] = Inr [0, 2]"
  by (simp add: np_histogram_bin_edges_def get_outer_edges_def hist_bin_doane_def np_linspace_def upt2)

lemma ex_current_distributions:
  "distributions (setitem ex_current ''target_binned''
      (Cat [Interval (999 / 1000) (3 / 2), Interval (3 / 2) 2] [Some 0, Some 1])) ex_cm
   = Inr ex_current_distr"
  apply (simp add: distributions_def ex_current_def ex_cm_def with_columns_def getitem_def
      series_sub_def sub_float_def as_float_def)
  apply (simp add: ex_edges1 np_histogram_def)
  apply (simp add: groupby_apply_def group_keys_def upt2 select_rows_def mask_list_def
      group_mae_def getitem_def with_columns_def)
  apply (simp add: mean_absolute_error_def check_reg_targets_def np_mean_def
      value_counts_sort_index_def series_loc_def as_float_def group_keys_def upt2 getitem_def
      ex_current_distr_def me_entries_def)
  done

lemma ex_reference_distributions:
  "distributions (setitem ex_reference ''target_binned''
      (Cat [Interval (1499 / 500) 4, Interval 4 5] [Some 0, Some 1])) ex_cm
   = Inr ex_reference_distr"
  apply (simp add: distributions_def ex_reference_def ex_cm_def with_columns_def getitem_def
      series_sub_def sub_float_def as_float_def)
  apply (simp add: ex_edges2 np_histogram_def)
  apply (simp add: groupby_apply_def group_keys_def upt2 select_rows_def mask_list_def
      group_mae_def getitem_def with_columns_def)
  apply (simp add: mean_absolute_error_def check_reg_targets_def np_mean_def
      value_counts_sort_index_def series_loc_def as_float_def group_keys_def upt2 getitem_def
      ex_reference_distr_def me_entries_def)
  done

lemma ex_current_binner: "binner ex_current ex_cm = Inr ex_current_distr"
  by (simp only: binner_def ex_current_cut sum.case ex_current_distributions)

lemma ex_reference_binner: "binner ex_reference ex_cm = Inr ex_reference_distr"
  by (simp only: binner_def ex_reference_cut sum.case ex_reference_distributions)

lemma ex_current_r2: "with_columns r2_score_fn ex_current ex_cm = Inr (Some (- 1))"
  by (simp add: with_columns_def ex_current_def ex_cm_def getitem_def r2_score_fn_def
      check_reg_targets_def as_float_def np_mean_def power2_eq_square)

lemma ex_current_mse: "with_columns mean_squared_error ex_current ex_cm = Inr (1 / 2)"
  by (simp add: with_columns_def ex_current_def ex_cm_def getitem_def mean_squared_error_def
      check_reg_targets_def as_float_def np_mean_def)

lemma ex_analyzer_reference:
  "ex_analyzer ex_reference (Some ex_current) ex_cm =
     Inr \<lparr>reference_metrics = ex_metrics 1,
          RegressionPerformanceAnalyzerResults.error_bias = Some ()\<rparr>"
  by (simp add: ex_analyzer_def ex_metrics_def with_columns_def ex_reference_def ex_cm_def
      getitem_def mean_absolute_error_def check_reg_targets_def as_float_def np_mean_def)

lemma ex_analyzer_current:
  "ex_analyzer ex_current None ex_cm =
     Inr \<lparr>reference_metrics = ex_metrics (1 / 2),
          RegressionPerformanceAnalyzerResults.error_bias = None\<rparr>"
  by (simp add: ex_analyzer_def ex_metrics_def with_columns_def ex_current_def ex_cm_def
      getitem_def mean_absolute_error_def check_reg_targets_def as_float_def np_mean_def)

lemma ex_calculate: "fst (calculate ex_analyzer ex_store ex_input ()) = Inr ex_result"
proof -
  have "fst (calculate ex_analyzer ex_store ex_input ()) =
          calculate_value ex_analyzer ex_current (Some ex_reference) ex_cm"
    using calculate_value_eq [of ex_input 0 ex_store ex_analyzer "()"]
    by (simp add: ex_input_def ex_store_def)
  also have "\<dots> = Inr ex_result"
    by (simp add: calculate_value_def ex_analyzer_reference ex_current_r2 ex_current_mse
        ex_current_binner ex_reference_binner ex_result_def case_prod_beta)
  finally show ?thesis .
qed


section \<open>The claims\<close>

text \<open>
  C5. Without a current data set \<open>calculate\<close> raises: a \<^verbatim>\<open>ValueError\<close> with the message
  "current dataset should be present", whatever the reference data, the column mapping,
  the \<open>metrics\<close> argument and the analyzer are. The store is the one before the call: no
  frame was copied, so the binner did not run, and the result does not depend on the
  analyzer, which may as well fail on every input.
\<close>

theorem calculate_requires_current:
  "calculate an s \<lparr>reference_data = reference, current_data = None, column_mapping = cm\<rparr> metrics
     = (Inl (ValueError ''current dataset should be present''), s)"
  by (simp add: calculate_def)

text \<open>What a returned record is made of.\<close>

lemma calculate_Inr:
  assumes "fst (calculate an s data metrics) = Inr r"
  shows "\<exists>cur res r2 mse me mae ref_me ref_mae.
           current_data data = Some cur \<and>
           analyze an s cur (reference_data data) (column_mapping data) = Inr res \<and>
           r = results res r2 mse me mae ref_me ref_mae \<and>
           with_columns mean_squared_error (frames s cur) (column_mapping data) = Inr mse \<and>
           fst (me_mae_distr s cur (column_mapping data)) = Inr (me, mae) \<and>
           fst (ref_distr (snd (me_mae_distr s cur (column_mapping data)))
                  (reference_data data) (column_mapping data)) = Inr (ref_me, ref_mae)"
proof (cases "current_data data")
  case None
  then show ?thesis using assms by (simp add: calculate_def)
next
  case (Some cur)
  show ?thesis
    using assms unfolding calculate_Some [OF Some]
    by (auto simp: Some split: sum.splits prod.splits)
qed

text \<open>
  C2. The scalar fields of a returned record (\<open>mean_error\<close>, \<open>mean_abs_error\<close>,
  \<open>mean_abs_perc_error\<close>, \<open>abs_error_max\<close>, \<open>error_std\<close>, \<open>abs_error_std\<close>,
  \<open>abs_perc_error_std\<close>, \<open>error_normality\<close>, \<open>underperformance\<close>) are those of the
  \<open>reference_metrics\<close> of the analyzer's result, and the analyzer was called with the
  reference frame in its reference slot when a reference data set was supplied, and with
  the current frame there (and no current frame) when none was.
\<close>

theorem scalar_metrics_of_reference_slot:
  assumes "fst (calculate an s data metrics) = Inr r"
  shows "\<exists>cur res.
           current_data data = Some cur \<and>
           an (frames s (case reference_data data of None \<Rightarrow> cur | Some ref \<Rightarrow> ref))
              (map_option (\<lambda>ref. frames s cur) (reference_data data)) (column_mapping data) = Inr res \<and>
           mean_error r = AnalyzerMetrics.mean_error (reference_metrics res) \<and>
           mean_abs_error r = AnalyzerMetrics.mean_abs_error (reference_metrics res) \<and>
           mean_abs_perc_error r = AnalyzerMetrics.mean_abs_perc_error (reference_metrics res) \<and>
           abs_error_max r = AnalyzerMetrics.abs_error_max (reference_metrics res) \<and>
           error_std r = AnalyzerMetrics.error_std (reference_metrics res) \<and>
           abs_error_std r = AnalyzerMetrics.abs_error_std (reference_metrics res) \<and>
           abs_perc_error_std r = AnalyzerMetrics.abs_perc_error_std (reference_metrics res) \<and>
           error_normality r = AnalyzerMetrics.error_normality (reference_metrics res) \<and>
           underperformance r = AnalyzerMetrics.underperformance (reference_metrics res)"
proof -
  from calculate_Inr [OF assms] obtain cur res r2 mse me mae ref_me ref_mae where
    c: "current_data data = Some cur"
    and a: "analyze an s cur (reference_data data) (column_mapping data) = Inr res"
    and r: "r = results res r2 mse me mae ref_me ref_mae"
    by blast
  have "an (frames s (case reference_data data of None \<Rightarrow> cur | Some ref \<Rightarrow> ref))
          (map_option (\<lambda>ref. frames s cur) (reference_data data)) (column_mapping data) = Inr res"
    using a by (simp add: analyze_def split: option.splits)
  then show ?thesis using c r by (simp add: results_def)
qed

text \<open>
  With both example frames the record has the mean absolute error 1 of the reference
  frame, not the 1/2 of the current frame.
\<close>

theorem scalar_metrics_of_reference_slot_witness:
  "fst (calculate ex_analyzer ex_store ex_input ()) = Inr ex_result \<and>
   ex_analyzer ex_reference (Some ex_current) ex_cm =
     Inr \<lparr>reference_metrics = ex_metrics 1,
          RegressionPerformanceAnalyzerResults.error_bias = Some ()\<rparr> \<and>
   ex_analyzer ex_current None ex_cm =
     Inr \<lparr>reference_metrics = ex_metrics (1 / 2),
          RegressionPerformanceAnalyzerResults.error_bias = None\<rparr> \<and>
   mean_abs_error ex_result = Some 1"
proof -
  have "mean_abs_error ex_result = Some 1"
    by (simp add: ex_result_def results_def ex_metrics_def)
  then show ?thesis
    using scalar_metrics_of_reference_slot [OF ex_calculate] ex_calculate ex_analyzer_reference
      ex_analyzer_current
    by simp
qed







text \<open>
  C9. The binner leaves the frame it is given as it was, and every other frame of the
  store too: the column \<^verbatim>\<open>target_binned\<close> is set in the copy, the one new object of the
  store.
\<close>

theorem me_mae_distr_leaves_input:
  assumes "df0 < fresh s"
  shows "frames (snd (me_mae_distr s df0 cm)) df0 = frames s df0 \<and>
         (\<forall>a. a < fresh s \<longrightarrow> frames (snd (me_mae_distr s df0 cm)) a = frames s a) \<and>
         (\<forall>tb. target_binned (frames s df0) cm = Inr tb \<longrightarrow>
               frames (snd (me_mae_distr s df0 cm)) (fresh s) =
                 setitem (frames s df0) ''target_binned'' tb)"
proof (intro conjI allI impI)
  show "frames (snd (me_mae_distr s df0 cm)) df0 = frames s df0"
    using assms by (simp add: me_mae_distr_frames)
next
  fix a assume "a < fresh s"
  then show "frames (snd (me_mae_distr s df0 cm)) a = frames s a"
    by (simp add: me_mae_distr_frames)
next
  fix tb assume "target_binned (frames s df0) cm = Inr tb"
  then show "frames (snd (me_mae_distr s df0 cm)) (fresh s) =
      setitem (frames s df0) ''target_binned'' tb"
    by (simp add: me_mae_distr_def df_copy_def df_setitem_def)
qed

text \<open>
  In the example store the current frame at address 0 has no column \<^verbatim>\<open>target_binned\<close>
  after the call; the copy at the new address 2 has it.
\<close>

theorem me_mae_distr_leaves_input_witness:
  "0 < fresh ex_store \<and>
   frames (snd (me_mae_distr ex_store 0 ex_cm)) 0 = ex_current \<and>
   getitem (frames (snd (me_mae_distr ex_store 0 ex_cm)) 0) ''target_binned''
     = Inl (KeyError ''target_binned'') \<and>
   getitem (frames (snd (me_mae_distr ex_store 0 ex_cm)) 2) ''target_binned''
     = Inr (Cat [Interval (999 / 1000) (3 / 2), Interval (3 / 2) 2] [Some 0, Some 1])"
proof -
  have f: "0 < fresh ex_store" "fresh ex_store = 2" "frames ex_store 0 = ex_current"
    by (simp_all add: ex_store_def)
  have c: "target_binned (frames ex_store 0) ex_cm =
      Inr (Cat [Interval (999 / 1000) (3 / 2), Interval (3 / 2) 2] [Some 0, Some 1])"
    by (simp only: f ex_current_cut)
  have k: "getitem ex_current ''target_binned'' = Inl (KeyError ''target_binned'')"
    by (simp add: getitem_def ex_current_def)
  from me_mae_distr_leaves_input [OF f(1), of ex_cm] c
  have "frames (snd (me_mae_distr ex_store 0 ex_cm)) 0 = ex_current"
    and "frames (snd (me_mae_distr ex_store 0 ex_cm)) 2 =
      setitem ex_current ''target_binned''
        (Cat [Interval (999 / 1000) (3 / 2), Interval (3 / 2) 2] [Some 0, Some 1])"
    by (simp_all only: f)
  then show ?thesis
    using f(1) k by (simp only: getitem_setitem) simp
qed

subsection \<open>Evenly spaced edges\<close>

lemma length_np_linspace: "length (np_linspace a b n) = n"
  by (simp add: np_linspace_def)

lemma nth_np_linspace:
  "i < n \<Longrightarrow> np_linspace a b n ! i = a + real i * ((b - a) / real (n - 1))"
  by (simp add: np_linspace_def)

lemma np_linspace_first: "0 < n \<Longrightarrow> np_linspace a b n ! 0 = a"
  by (simp add: nth_np_linspace)

lemma np_linspace_last: "2 \<le> n \<Longrightarrow> np_linspace a b n ! (n - 1) = b"
  by (simp add: nth_np_linspace)

lemma np_linspace_strict:
  assumes "a < b"
  shows "sorted_wrt (<) (np_linspace a b n)"
proof -
  have "np_linspace a b n ! i < np_linspace a b n ! j" if "i < j" "j < n" for i j
  proof -
    define d where "d = (b - a) / real (n - 1)"
    have "0 < d"
      using assms that by (simp add: d_def)
    moreover have "real i < real j"
      using that by simp
    ultimately have "real i * d < real j * d"
      by (rule mult_strict_right_mono [rotated])
    then show ?thesis
      using that by (simp add: nth_np_linspace d_def)
  qed
  then show ?thesis
    by (simp add: sorted_wrt_iff_nth_less length_np_linspace)
qed

lemma sorted_wrt_less_update_first:
  assumes "sorted_wrt (<) (es :: real list)" and "0 \<le> d"
  shows "sorted_wrt (<) (es[0 := es ! 0 - d])"
proof (cases es)
  case Nil
  then show ?thesis by simp
next
  case (Cons e rest)
  then show ?thesis using assms by force
qed

subsection \<open>Histogram counts\<close>

lemma length_hist_counts: "length (hist_counts xs es) = length es - 1"
  by (induction xs es rule: hist_counts.induct) simp_all

lemma hist_counts_nth:
  "i < length es - 1 \<Longrightarrow> hist_counts xs es ! i = length (filter (in_hist_bin es i) xs)"
proof (induction xs es arbitrary: i rule: hist_counts.induct)
  case (1 xs l r)
  then show ?case by (simp add: in_hist_bin_def)
next
  case (2 xs l r v va)
  show ?case
  proof (cases i)
    case 0
    then show ?thesis by (simp add: in_hist_bin_def)
  next
    case (Suc j)
    then have "j < length (r # v # va) - 1" using 2(2) by simp
    from 2(1) [OF this] show ?thesis
      by (simp add: Suc in_hist_bin_def)
  qed
qed simp_all


subsection \<open>Missing values\<close>

lemma set_dropna: "set (dropna xs) = {v. Some v \<in> set xs}"
  by (induction xs rule: dropna.induct) auto


lemma map_Some_dropna: "None \<notin> set xs \<Longrightarrow> map Some (dropna xs) = xs"
  by (induction xs rule: dropna.induct) auto

lemma dropna_eq_Nil: "dropna xs = [] \<longleftrightarrow> (\<forall>x \<in> set xs. x = None)"
  by (induction xs rule: dropna.induct) auto

lemma dropna_nonempty: "a \<noteq> [] \<Longrightarrow> None \<notin> set a \<Longrightarrow> dropna a \<noteq> []"
  by (cases a rule: dropna.cases) auto

subsection \<open>The bin edges of the histogram\<close>

lemma hist_bin_doane_nonneg: "0 \<le> hist_bin_doane x"
proof (cases "2 < length x \<and> 0 < np_std x")
  case False
  then show ?thesis by (auto simp: hist_bin_doane_def Let_def)
next
  case True
  define n where "n = real (length x)"
  define sg1 where "sg1 = sqrt (6 * (n - 2) / ((n + 1) * (n + 3)))"
  define g1 where "g1 = np_mean (map (\<lambda>v. ((v - np_mean x) / np_std x) ^ 3) x)"
  have n: "2 < n" using True by (simp add: n_def)
  have "x \<noteq> []" using True by auto
  then have "Min (set x) \<le> Max (set x)" by simp
  then have p: "0 \<le> ptp x" by (simp add: ptp_def)
  have "0 \<le> 6 * (n - 2) / ((n + 1) * (n + 3))"
    using n by (intro divide_nonneg_nonneg mult_nonneg_nonneg) simp_all
  then have "0 \<le> sg1" by (simp only: sg1_def real_sqrt_ge_zero)
  then have "1 \<le> 1 + \<bar>g1\<bar> / sg1" by simp
  then have l2: "0 \<le> log 2 (1 + \<bar>g1\<bar> / sg1)" by simp
  have "1 \<le> n" using n by simp
  then have l1: "0 \<le> log 2 n" by simp
  have "0 \<le> ptp x / (1 + log 2 n + log 2 (1 + \<bar>g1\<bar> / sg1))"
    using p l1 l2 by simp
  then show ?thesis
    using True by (simp add: hist_bin_doane_def Let_def n_def sg1_def g1_def)
qed

lemma get_outer_edges_Inr:
  assumes "get_outer_edges a = Inr (lo, hi)"
  shows "lo < hi" and "None \<notin> set a" and "\<forall>x \<in> set (dropna a). lo \<le> x \<and> x \<le> hi"
proof -
  show "None \<notin> set a"
    using assms by (auto simp: get_outer_edges_def split: if_splits)
  show "lo < hi"
  proof (cases "a = []")
    case True
    then show ?thesis using assms by (simp add: get_outer_edges_def)
  next
    case False
    then have "dropna a \<noteq> []"
      using \<open>None \<notin> set a\<close> by (rule dropna_nonempty)
    then have "Min (set (dropna a)) \<le> Max (set (dropna a))" by simp
    then show ?thesis
      using assms False by (auto simp: get_outer_edges_def Let_def split: if_splits)
  qed
  show "\<forall>x \<in> set (dropna a). lo \<le> x \<and> x \<le> hi"
  proof
    fix x assume x: "x \<in> set (dropna a)"
    then have "a \<noteq> []" by auto
    have "Min (set (dropna a)) \<le> x" "x \<le> Max (set (dropna a))"
      using x by simp_all
    then show "lo \<le> x \<and> x \<le> hi"
      using assms \<open>a \<noteq> []\<close> by (auto simp: get_outer_edges_def Let_def split: if_splits)
  qed
qed

lemma np_histogram_bin_edges_Inr:
  assumes "np_histogram_bin_edges a = Inr edges"
  shows "None \<notin> set a" and "sorted_wrt (<) edges" and "2 \<le> length edges"
    and "\<forall>x \<in> set (dropna a). hd edges \<le> x \<and> x \<le> last edges"
proof -
  obtain lo hi where g: "get_outer_edges a = Inr (lo, hi)"
    using assms by (auto simp: np_histogram_bin_edges_def split: sum.splits)
  define n where "n = (if a = [] then 1
     else (let width = hist_bin_doane (dropna a)
           in if width \<noteq> 0 then nat \<lceil>(hi - lo) / width\<rceil> else 1))"
  have e: "edges = np_linspace lo hi (n + 1)"
    using assms g by (simp add: np_histogram_bin_edges_def n_def)
  note o = get_outer_edges_Inr [OF g]
  have n: "1 \<le> n"
  proof (cases "a \<noteq> [] \<and> hist_bin_doane (dropna a) \<noteq> 0")
    case False
    then show ?thesis by (auto simp: n_def)
  next
    case True
    then have "0 < hist_bin_doane (dropna a)"
      using hist_bin_doane_nonneg [of "dropna a"] by simp
    then have "0 < (hi - lo) / hist_bin_doane (dropna a)"
      using o(1) by simp
    then have "0 < \<lceil>(hi - lo) / hist_bin_doane (dropna a)\<rceil>"
      by simp
    then show ?thesis using True by (simp add: n_def Let_def Suc_le_eq)
  qed
  show "None \<notin> set a" by (rule o(2))
  show "sorted_wrt (<) edges"
    unfolding e using o(1) by (rule np_linspace_strict)
  show len: "2 \<le> length edges"
    using n by (simp add: e length_np_linspace)
  have "hd edges = lo"
    using len by (simp add: e hd_conv_nth length_np_linspace np_linspace_first flip: length_greater_0_conv)
  moreover have "last edges = hi"
    using len np_linspace_last [of "n + 1" lo hi]
    by (simp add: e last_conv_nth length_np_linspace flip: length_greater_0_conv)
  ultimately show "\<forall>x \<in> set (dropna a). hd edges \<le> x \<and> x \<le> last edges"
    using o(3) by simp
qed

lemma np_histogram_bin_edges_total:
  assumes "None \<notin> set a"
  shows "\<exists>edges. np_histogram_bin_edges a = Inr edges"
  using assms by (simp add: np_histogram_bin_edges_def get_outer_edges_def Let_def)

lemma np_histogram_sorted:
  "sorted_wrt (<) edges \<Longrightarrow> np_histogram a edges = Inr (hist_counts (dropna a) edges, edges)"
  by (simp add: np_histogram_def strict_sorted_imp_sorted)

subsection \<open>The entries of the histogram\<close>

lemma me_entries_hist:
  assumes "2 \<le> length edges"
  shows "length (me_entries (hist_counts xs edges) edges) = length edges - 1"
    and "map fst (me_entries (hist_counts xs edges) edges) = butlast edges"
    and "map snd (me_entries (hist_counts xs edges) edges) = hist_counts xs edges"
    and "i < length edges - 1 \<Longrightarrow> me_entries (hist_counts xs edges) edges ! i
           = (edges ! i, length (filter (in_hist_bin edges i) xs))"
proof -
  have l: "length (hist_counts xs edges) = length edges - 1"
    by (rule length_hist_counts)
  show "length (me_entries (hist_counts xs edges) edges) = length edges - 1"
    by (simp add: me_entries_def l)
  have "map fst (me_entries (hist_counts xs edges) edges) = map snd (zip (hist_counts xs edges) edges)"
    by (simp add: me_entries_def case_prod_beta)
  also have "\<dots> = take (length edges - 1) edges"
    by (simp add: map_snd_zip_take l)
  also have "\<dots> = butlast edges"
    by (simp add: butlast_conv_take)
  finally show "map fst (me_entries (hist_counts xs edges) edges) = butlast edges" .
  have "map snd (me_entries (hist_counts xs edges) edges) = map fst (zip (hist_counts xs edges) edges)"
    by (simp add: me_entries_def case_prod_beta)
  also have "\<dots> = hist_counts xs edges"
    by (simp add: map_fst_zip_take l)
  finally show "map snd (me_entries (hist_counts xs edges) edges) = hist_counts xs edges" .
  show "me_entries (hist_counts xs edges) edges ! i
           = (edges ! i, length (filter (in_hist_bin edges i) xs))" if "i < length edges - 1"
    using that by (simp add: me_entries_def l hist_counts_nth)
qed

subsection \<open>The edges and categories of the cut\<close>

lemma cut_edges_props:
  assumes "vs \<noteq> []"
  shows "length (cut_edges vs bins) = bins + 1"
    and "sorted_wrt (<) (cut_edges vs bins)"
    and "1 \<le> bins \<Longrightarrow>
         \<forall>x \<in> set vs. cut_edges vs bins ! 0 < x \<and> x \<le> cut_edges vs bins ! bins"
proof -
  define mn where "mn = Min (set vs)"
  define mx where "mx = Max (set vs)"
  have le: "mn \<le> mx" using assms by (simp add: mn_def mx_def)
  have bounds: "mn \<le> x \<and> x \<le> mx" if "x \<in> set vs" for x
    using that by (simp add: mn_def mx_def)
  show "length (cut_edges vs bins) = bins + 1"
    by (simp add: cut_edges_def Let_def length_np_linspace)
  show "sorted_wrt (<) (cut_edges vs bins)"
  proof (cases "mn = mx")
    case True
    define lo where "lo = mn - (if mn \<noteq> 0 then 1 / 1000 * \<bar>mn\<bar> else 1 / 1000)"
    define hi where "hi = mx + (if mx \<noteq> 0 then 1 / 1000 * \<bar>mx\<bar> else 1 / 1000)"
    have e: "cut_edges vs bins = np_linspace lo hi (bins + 1)"
      using True by (simp add: cut_edges_def Let_def mn_def mx_def lo_def hi_def)
    have "lo < hi"
      using True by (auto simp: lo_def hi_def)
    then show ?thesis
      unfolding e by (rule np_linspace_strict)
  next
    case False
    then have lt: "mn < mx" using le by simp
    have e: "cut_edges vs bins =
        (np_linspace mn mx (bins + 1))[0 := np_linspace mn mx (bins + 1) ! 0 - (mx - mn) * (1 / 1000)]"
      using False by (simp add: cut_edges_def Let_def mn_def mx_def)
    have "0 \<le> (mx - mn) * (1 / 1000)" using lt by simp
    with np_linspace_strict [OF lt] show ?thesis
      unfolding e by (rule sorted_wrt_less_update_first)
  qed
  assume b: "1 \<le> bins"
  then have b2: "2 \<le> bins + 1" by simp
  show "\<forall>x \<in> set vs. cut_edges vs bins ! 0 < x \<and> x \<le> cut_edges vs bins ! bins"
  proof (cases "mn = mx")
    case True
    have e: "cut_edges vs bins =
        np_linspace (mn - (if mn \<noteq> 0 then 1 / 1000 * \<bar>mn\<bar> else 1 / 1000))
          (mx + (if mx \<noteq> 0 then 1 / 1000 * \<bar>mx\<bar> else 1 / 1000)) (bins + 1)"
      using True by (simp add: cut_edges_def Let_def mn_def mx_def)
    have 0: "cut_edges vs bins ! 0 < mn"
      by (simp add: e np_linspace_first)
    have "mx \<le> cut_edges vs bins ! bins"
      using np_linspace_last [OF b2] by (simp add: e)
    with 0 bounds show ?thesis by fastforce
  next
    case False
    then have lt: "mn < mx" using le by simp
    have e: "cut_edges vs bins =
        (np_linspace mn mx (bins + 1))[0 := np_linspace mn mx (bins + 1) ! 0 - (mx - mn) * (1 / 1000)]"
      using False by (simp add: cut_edges_def Let_def mn_def mx_def)
    have 0: "cut_edges vs bins ! 0 < mn"
      using lt by (simp add: e length_np_linspace np_linspace_first)
    have "mx \<le> cut_edges vs bins ! bins"
      using np_linspace_last [OF b2, of mn mx] b by (simp add: e)
    with 0 bounds show ?thesis by fastforce
  qed
qed

lemma length_from_breaks: "length (from_breaks es) = length es - 1"
  by (simp add: from_breaks_def)

lemma length_format_labels: "length (format_labels es p) = length es - 1"
  by (simp add: format_labels_def Let_def length_from_breaks)

subsection \<open>The category of a value\<close>





subsection \<open>Traversals, groups and counts\<close>

lemma traverse_Inr: "traverse f xs = Inr ys \<Longrightarrow> list_all2 (\<lambda>x y. f x = Inr y) xs ys"
proof (induction xs arbitrary: ys)
  case Nil
  then show ?case by simp
next
  case (Cons x xs)
  then show ?case by (auto split: sum.splits)
qed

lemma traverse_total:
  "(\<And>x. x \<in> set xs \<Longrightarrow> \<exists>y. f x = Inr y) \<Longrightarrow> \<exists>ys. traverse f xs = Inr ys"
proof (induction xs)
  case Nil
  then show ?case by simp
next
  case (Cons x xs)
  then obtain y ys where "f x = Inr y" "traverse f xs = Inr ys"
    by (meson list.set_intros)
  then show ?case by simp
qed

lemma group_keys_Cat:
  "group_keys (Cat cats codes) = map (\<lambda>i. (cats ! i, map (\<lambda>k. k = Some i) codes)) [0..<length cats]"
  by (simp add: group_keys_def)

lemma length_filter_id_map: "length (filter id (map P xs)) = length (filter P xs)"
  by (induction xs) simp_all

lemma value_counts_Cat:
  "value_counts_sort_index (Cat cats codes) =
     map (\<lambda>i. (cats ! i, length (filter (\<lambda>k. k = Some i) codes))) [0..<length cats]"
  by (simp add: value_counts_sort_index_def group_keys_Cat length_filter_id_map)


subsection \<open>The rows of a group\<close>

lemma getitem_select_rows:
  "getitem df k = Inr (Num xs) \<Longrightarrow> getitem (select_rows keep df) k = Inr (Num (mask_list keep xs))"
proof (induction df)
  case Nil
  then show ?case by (simp add: getitem_def)
next
  case (Cons a df)
  then show ?case
    by (cases a) (auto simp: getitem_def select_rows_def split: if_splits option.splits)
qed

lemma getitem_select_rows_Inl:
  "getitem df k = Inl e \<Longrightarrow> getitem (select_rows keep df) k = Inl e"
proof (induction df)
  case Nil
  then show ?case by (simp add: getitem_def select_rows_def)
next
  case (Cons a df)
  then show ?case
    by (cases a) (auto simp: getitem_def select_rows_def split: if_splits option.splits)
qed

lemma mask_list_nonempty: "mask_list keep xs \<noteq> [] \<Longrightarrow> True \<in> set keep"
proof -
  assume "mask_list keep xs \<noteq> []"
  then obtain b x where z: "(b, x) \<in> set (zip keep xs)" and b: "b"
    by (auto simp: mask_list_def filter_empty_conv)
  from z have "b \<in> set keep" by (rule set_zip_leftD)
  then show ?thesis using b by simp
qed

lemma group_mae_Inr:
  assumes "group_mae cm (select_rows keep df) = Inr v"
    and "getitem df (target cm) = Inr (Num ts)"
  shows "True \<in> set keep"
proof -
  have t: "getitem (select_rows keep df) (target cm) = Inr (Num (mask_list keep ts))"
    using assms(2) by (rule getitem_select_rows)
  have "mask_list keep ts \<noteq> []"
    using assms(1) unfolding group_mae_def with_columns_def t
    by (auto simp: mean_absolute_error_def check_reg_targets_def as_float_def
        split: sum.splits if_splits)
  then show ?thesis by (rule mask_list_nonempty)
qed

subsection \<open>What a returned pair of distributions is made of\<close>

lemma target_binned_Inr:
  assumes "target_binned df cm = Inr tb"
  shows "\<exists>ts. getitem df (target cm) = Inr (Num ts) \<and> dropna ts \<noteq> [] \<and>
           1 \<le> min (nunique (Num ts)) 10 \<and>
           tb = Cat (format_labels (target_edges ts) 3) (map (cut_code (target_edges ts)) ts)"
proof -
  obtain c where c: "getitem df (target cm) = Inr c" and p: "pd_cut c (min (nunique c) 10) = Inr tb"
    using assms by (auto simp: target_binned_def Let_def split: sum.splits)
  obtain ts where ts: "c = Num ts"
    using p by (cases c) (auto simp: pd_cut_def as_float_def)
  have "dropna ts \<noteq> []" and "1 \<le> min (nunique (Num ts)) 10"
    and "bins_to_cuts ts (target_edges ts) = Inr tb"
    using p unfolding ts pd_cut_def as_float_def target_edges_def
    by (auto split: if_splits)
  then show ?thesis
    using c ts by (auto simp: bins_to_cuts_def Let_def split: if_splits)
qed

lemma with_columns_series_sub_Inr:
  assumes "with_columns series_sub df cm = Inr data"
  shows "\<exists>ts ps. getitem df (target cm) = Inr (Num ts) \<and> getitem df (prediction cm) = Inr (Num ps) \<and>
           data = map (\<lambda>(x, y). sub_float x y) (zip ts ps)"
proof -
  obtain t p where t: "getitem df (target cm) = Inr t" and p: "getitem df (prediction cm) = Inr p"
    and s: "series_sub t p = Inr data"
    using assms by (auto simp: with_columns_def split: sum.splits)
  obtain ts where ts: "t = Num ts"
    using s by (cases t) (auto simp: series_sub_def as_float_def)
  obtain ps where ps: "p = Num ps"
    using s unfolding ts by (cases p) (auto simp: series_sub_def as_float_def)
  show ?thesis
    using t p s unfolding ts ps by (auto simp: series_sub_def as_float_def)
qed

lemma distributions_Inr:
  assumes "distributions df cm = Inr (me, mae)"
  shows "\<exists>data edges ser tb.
           with_columns series_sub df cm = Inr data \<and>
           np_histogram_bin_edges data = Inr edges \<and>
           me = me_entries (hist_counts (dropna data) edges) edges \<and>
           groupby_apply df ''target_binned'' (group_mae cm) = Inr ser \<and>
           getitem df ''target_binned'' = Inr tb \<and>
           traverse (\<lambda>(idx, val). case series_loc ser idx of Inl e \<Rightarrow> Inl e
                                    | Inr m \<Rightarrow> Inr (idx, m, val))
             (value_counts_sort_index tb) = Inr mae"
proof -
  obtain data where d: "with_columns series_sub df cm = Inr data"
    using assms by (auto simp: distributions_def split: sum.splits)
  obtain edges where e: "np_histogram_bin_edges data = Inr edges"
    using assms d by (auto simp: distributions_def split: sum.splits)
  have h: "np_histogram data edges = Inr (hist_counts (dropna data) edges, edges)"
    using np_histogram_bin_edges_Inr(2) [OF e] by (rule np_histogram_sorted)
  obtain ser where g: "groupby_apply df ''target_binned'' (group_mae cm) = Inr ser"
    using assms d e h by (auto simp: distributions_def split: sum.splits)
  obtain tb where t: "getitem df ''target_binned'' = Inr tb"
    using assms d e h g by (auto simp: distributions_def split: sum.splits)
  show ?thesis
    using assms d e h g t
    by (auto simp: distributions_def Let_def split: sum.splits)
qed

lemma binner_Inr:
  assumes "binner df cm = Inr (me, mae)"
  obtains ts ps data edges where
    "getitem df (target cm) = Inr (Num ts)"
    and "getitem df (prediction cm) = Inr (Num ps)"
    and "dropna ts \<noteq> []"
    and "1 \<le> min (nunique (Num ts)) 10"
    and "target_binned df cm =
           Inr (Cat (format_labels (target_edges ts) 3) (map (cut_code (target_edges ts)) ts))"
    and "with_columns series_sub df cm = Inr data"
    and "data = map (\<lambda>(x, y). sub_float x y) (zip ts ps)"
    and "np_histogram_bin_edges data = Inr edges"
    and "me = me_entries (hist_counts (dropna data) edges) edges"
    and "map fst mae = format_labels (target_edges ts) 3"
    and "map (\<lambda>(l, m, n). n) mae =
           map (\<lambda>i. length (filter (\<lambda>k. k = Some i) (map (cut_code (target_edges ts)) ts)))
             [0..<length (format_labels (target_edges ts) 3)]"
    and "\<forall>i<length (format_labels (target_edges ts) 3). Some i \<in> set (map (cut_code (target_edges ts)) ts)"
proof -
  obtain tb where tb: "target_binned df cm = Inr tb"
    and ds: "distributions (setitem df ''target_binned'' tb) cm = Inr (me, mae)"
    using assms by (auto simp: binner_def split: sum.splits)
  from target_binned_Inr [OF tb] obtain ts where
    ts: "getitem df (target cm) = Inr (Num ts)" and ne: "dropna ts \<noteq> []"
    and bins: "1 \<le> min (nunique (Num ts)) 10"
    and tb_eq: "tb = Cat (format_labels (target_edges ts) 3) (map (cut_code (target_edges ts)) ts)"
    by blast
  define cats where "cats = format_labels (target_edges ts) 3"
  define codes where "codes = map (cut_code (target_edges ts)) ts"
  define df' where "df' = setitem df ''target_binned'' tb"
  have tbc: "tb = Cat cats codes" by (simp add: tb_eq cats_def codes_def)
  from distributions_Inr [OF ds] obtain data edges ser tb' where
    d: "with_columns series_sub df' cm = Inr data"
    and e: "np_histogram_bin_edges data = Inr edges"
    and me: "me = me_entries (hist_counts (dropna data) edges) edges"
    and g: "groupby_apply df' ''target_binned'' (group_mae cm) = Inr ser"
    and t': "getitem df' ''target_binned'' = Inr tb'"
    and tr: "traverse (\<lambda>(idx, val). case series_loc ser idx of Inl e \<Rightarrow> Inl e
                                    | Inr m \<Rightarrow> Inr (idx, m, val))
             (value_counts_sort_index tb') = Inr mae"
    unfolding df'_def by blast
  have tb': "tb' = tb"
    using t' by (simp add: df'_def getitem_setitem)
  from with_columns_series_sub_Inr [OF d] obtain ts' ps where
    t1: "getitem df' (target cm) = Inr (Num ts')"
    and p1: "getitem df' (prediction cm) = Inr (Num ps)"
    and data: "data = map (\<lambda>(x, y). sub_float x y) (zip ts' ps)"
    by blast
  have tn: "target cm \<noteq> ''target_binned''"
    using t1 by (auto simp: df'_def getitem_setitem tbc)
  have pn: "prediction cm \<noteq> ''target_binned''"
    using p1 by (auto simp: df'_def getitem_setitem tbc)
  have t2: "getitem df' (target cm) = Inr (Num ts)"
    using tn ts by (simp add: df'_def getitem_setitem)
  then have ts': "ts' = ts" using t1 by simp
  have p2: "getitem df (prediction cm) = Inr (Num ps)"
    using pn p1 by (simp add: df'_def getitem_setitem)
  have d2: "with_columns series_sub df cm = Inr data"
    using d tn pn by (auto simp: with_columns_def df'_def getitem_setitem split: sum.splits)
  \<comment> \<open>the entries follow the categories\<close>
  let ?vc = "map (\<lambda>i. (cats ! i, length (filter (\<lambda>k. k = Some i) codes))) [0..<length cats]"
  have vc: "value_counts_sort_index tb' = ?vc"
    by (simp add: tb' tbc value_counts_Cat)
  from traverse_Inr [OF tr]
  have la: "list_all2 (\<lambda>x y. (case x of (idx, val) \<Rightarrow> case series_loc ser idx of Inl e \<Rightarrow> Inl e
                 | Inr m \<Rightarrow> Inr (idx, m, val)) = Inr y) ?vc mae"
    by (simp only: vc)
  have len: "length mae = length cats"
    using list_all2_lengthD [OF la] by simp
  have nth: "fst (mae ! i) = cats ! i \<and>
             (case mae ! i of (l, m, n) \<Rightarrow> n) = length (filter (\<lambda>k. k = Some i) codes)"
    if i: "i < length cats" for i
  proof -
    have "(case ?vc ! i of (idx, val) \<Rightarrow> case series_loc ser idx of Inl e \<Rightarrow> Inl e
                 | Inr m \<Rightarrow> Inr (idx, m, val)) = Inr (mae ! i)"
      using list_all2_nthD [OF la, of i] i by simp
    then obtain m where "(cats ! i, m, length (filter (\<lambda>k. k = Some i) codes)) = mae ! i"
      using i by (auto split: sum.splits)
    then have "mae ! i = (cats ! i, m, length (filter (\<lambda>k. k = Some i) codes))"
      by (rule sym)
    then show ?thesis by simp
  qed
  have m1: "map fst mae = cats"
    using len nth by (intro nth_equalityI) simp_all
  have m2: "map (\<lambda>(l, m, n). n) mae =
      map (\<lambda>i. length (filter (\<lambda>k. k = Some i) codes)) [0..<length cats]"
    using len nth by (intro nth_equalityI) simp_all
  \<comment> \<open>every group has a row\<close>
  have gk: "getitem df' ''target_binned'' = Inr (Cat cats codes)"
    using t' tb' tbc by simp
  from g have "\<exists>ser. traverse (\<lambda>(l, keep). case group_mae cm (select_rows keep df') of
        Inl e \<Rightarrow> Inl e | Inr v \<Rightarrow> Inr (l, v)) (group_keys (Cat cats codes)) = Inr ser"
    by (simp add: groupby_apply_def gk)
  then obtain ser' where "list_all2 (\<lambda>x y. (case x of (l, keep) \<Rightarrow>
        case group_mae cm (select_rows keep df') of Inl e \<Rightarrow> Inl e | Inr v \<Rightarrow> Inr (l, v)) = Inr y)
        (group_keys (Cat cats codes)) ser'"
    using traverse_Inr by blast
  then have gl: "list_all2 (\<lambda>x y. (case x of (l, keep) \<Rightarrow>
        case group_mae cm (select_rows keep df') of Inl e \<Rightarrow> Inl e | Inr v \<Rightarrow> Inr (l, v)) = Inr y)
        (map (\<lambda>i. (cats ! i, map (\<lambda>k. k = Some i) codes)) [0..<length cats]) ser'"
    by (simp only: group_keys_Cat)
  have all: "Some i \<in> set codes" if i: "i < length cats" for i
  proof -
    have "(case group_mae cm (select_rows (map (\<lambda>k. k = Some i) codes) df') of
        Inl e \<Rightarrow> Inl e | Inr v \<Rightarrow> Inr (cats ! i, v)) = Inr (ser' ! i)"
      using list_all2_nthD [OF gl, of i] i by simp
    then obtain v where "group_mae cm (select_rows (map (\<lambda>k. k = Some i) codes) df') = Inr v"
      by (auto split: sum.splits)
    from group_mae_Inr [OF this t2] show ?thesis by auto
  qed
  show ?thesis
    using that [OF ts p2 ne bins _ d2 _ e me] tb tb_eq data ts' m1 m2 all
    unfolding cats_def codes_def by blast
qed

lemma sorted_wrt_butlast: "sorted_wrt P xs \<Longrightarrow> sorted_wrt P (butlast xs)"
  by (simp add: butlast_conv_take sorted_wrt_take)

lemma ex_current_me_mae_distr: "fst (me_mae_distr ex_store 0 ex_cm) = Inr ex_current_distr"
  by (simp add: me_mae_distr_value ex_store_def ex_current_binner)

text \<open>
  C7. The signed-error histogram of a returned pair has one entry for every bin of the
  histogram: entry \<open>i\<close> pairs the left edge of bin \<open>i\<close> with the number of errors in that
  bin, and the left edges ascend. The edges are those of \<^verbatim>\<open>np.histogram_bin_edges\<close> for
  the errors of the frame; \<^verbatim>\<open>zip\<close> drops the last of them, the right edge of the last bin.
\<close>

theorem me_distr_entries:
  assumes "fst (me_mae_distr s df0 cm) = Inr (me, mae)"
  shows "\<exists>data edges.
           with_columns series_sub (frames s df0) cm = Inr data \<and>
           np_histogram_bin_edges data = Inr edges \<and>
           length me = length edges - 1 \<and>
           map fst me = butlast edges \<and>
           sorted_wrt (<) (map fst me) \<and>
           (\<forall>i<length me. me ! i = (edges ! i, length (filter (in_hist_bin edges i) (dropna data))))"
proof -
  have b: "binner (frames s df0) cm = Inr (me, mae)"
    using assms by (simp add: me_mae_distr_value)
  from binner_Inr [OF b] obtain data edges where
    d: "with_columns series_sub (frames s df0) cm = Inr data"
    and e: "np_histogram_bin_edges data = Inr edges"
    and me: "me = me_entries (hist_counts (dropna data) edges) edges"
    by metis
  note p = np_histogram_bin_edges_Inr [OF e]
  note h = me_entries_hist [OF p(3), where xs = "dropna data"]
  have "sorted_wrt (<) (map fst me)"
    unfolding me h(2) using p(2) by (rule sorted_wrt_butlast)
  then show ?thesis
    using d e h(1,2,4) by (auto simp: me)
qed

text \<open>The current example frame: the errors 0 and 1 fall into the one bin from 0 to 1.\<close>

theorem me_distr_entries_witness:
  "fst (me_mae_distr ex_store 0 ex_cm) = Inr ex_current_distr \<and>
   fst ex_current_distr = [(0, 2)] \<and>
   np_histogram_bin_edges [Some 0, Some 1] = Inr [0, 1]"
proof -
  have "fst (me_mae_distr ex_store 0 ex_cm) = Inr (fst ex_current_distr, snd ex_current_distr)"
    by (simp add: ex_current_me_mae_distr)
  from me_distr_entries [OF this] ex_current_me_mae_distr ex_edges1
  show ?thesis by (simp add: ex_current_distr_def)
qed

subsection \<open>The number of target bins\<close>

lemma nunique_card: "nunique (Num ts) = card {v. Some v \<in> set ts}"
  by (simp add: nunique_def length_remdups_card_conv set_dropna)

text \<open>
  The example with three distinct targets. Every row is put into its bin by the edges
  themselves, not by the rounded edges of the labels.
\<close>

lemma ex_three_cut:
  "target_binned ex_three ex_cm =
     Inr (Cat [Interval (- (1 / 500)) (667 / 1000), Interval (667 / 1000) (1333 / 1000),
               Interval (1333 / 1000) 2] [Some 0, Some 1, Some 1, Some 2])"
proof -
  have upt4: "[0..<4] = [0, 1, 2, 3]" by (simp add: upt_rec)
  show ?thesis
    by (simp add: target_binned_def ex_three_def ex_cm_def getitem_def nunique_def pd_cut_def
        cut_edges_def as_float_def np_linspace_def bins_to_cuts_def ex_thirds_labels cut_code_def
        upt4 Let_def)
qed

lemma ex_three_binner: "binner ex_three ex_cm = Inr ex_three_distr"
proof -
  have e: "np_histogram_bin_edges [Some (- 1), Some (- 1), Some (- 1), Some (- 1)] =
      Inr [- (3 / 2), - (1 / 2)]"
    by (simp add: np_histogram_bin_edges_def get_outer_edges_def hist_bin_doane_def np_std_def
        np_mean_def np_linspace_def upt2)
  have d: "distributions (setitem ex_three ''target_binned''
        (Cat [Interval (- (1 / 500)) (667 / 1000), Interval (667 / 1000) (1333 / 1000),
              Interval (1333 / 1000) 2] [Some 0, Some 1, Some 1, Some 2])) ex_cm
      = Inr ex_three_distr"
    apply (simp add: distributions_def ex_three_def ex_cm_def with_columns_def getitem_def
        series_sub_def sub_float_def as_float_def)
    apply (simp add: e np_histogram_def)
    apply (simp add: groupby_apply_def group_keys_def upt3 select_rows_def mask_list_def
        group_mae_def getitem_def with_columns_def)
    apply (simp add: mean_absolute_error_def check_reg_targets_def np_mean_def
        value_counts_sort_index_def series_loc_def as_float_def group_keys_def upt3 getitem_def
        ex_three_distr_def me_entries_def)
    done
  show ?thesis
    by (simp only: binner_def ex_three_cut sum.case d)
qed

lemma ex_eleven_cut:
  "target_binned ex_eleven ex_cm =
     Inr (Cat [Interval (99 / 100) 2, Interval 2 3, Interval 3 4, Interval 4 5, Interval 5 6,
               Interval 6 7, Interval 7 8, Interval 8 9, Interval 9 10, Interval 10 11]
              [Some 0, None, Some 0, Some 0, Some 1, Some 2, Some 3, Some 4, Some 5, Some 6,
               Some 7, Some 8, Some 9])"
proof -
  have upt11: "[0..<11] = [0, 1, 2, 3, 4, 5, 6, 7, 8, 9, 10]"
    by (simp add: upt_rec)
  have l: "format_labels [99 / 100, 2, 3, 4, 5, 6, 7, 8, 9, 10, 11] 3 =
      [Interval (99 / 100) 2, Interval 2 3, Interval 3 4, Interval 4 5, Interval 5 6,
       Interval 6 7, Interval 7 8, Interval 8 9, Interval 9 10, Interval 10 11]"
    by (simp add: format_labels_first round_frac_eval np_rint_numeral from_breaks_def)
  show ?thesis
    by (simp add: target_binned_def ex_eleven_def ex_cm_def getitem_def nunique_def pd_cut_def
        cut_edges_def as_float_def np_linspace_def bins_to_cuts_def l cut_code_def upt11 Let_def)
qed

text \<open>
  C3. The target is cut into \<open>min (n, 10)\<close> bins, for the number \<open>n\<close> of distinct target
  values that are not missing: the column \<^verbatim>\<open>target_binned\<close> has that many categories,
  and a returned \<^verbatim>\<open>binned_mae\<close> has that many entries.
\<close>

theorem target_bins_count:
  assumes "getitem (frames s df0) (target cm) = Inr (Num ts)"
  shows "(\<forall>cats codes. target_binned (frames s df0) cm = Inr (Cat cats codes) \<longrightarrow>
            length cats = min (card {v. Some v \<in> set ts}) 10) \<and>
         (\<forall>me mae. fst (me_mae_distr s df0 cm) = Inr (me, mae) \<longrightarrow>
            length mae = min (card {v. Some v \<in> set ts}) 10)"
proof (intro conjI allI impI)
  fix cats codes
  assume t: "target_binned (frames s df0) cm = Inr (Cat cats codes)"
  from target_binned_Inr [OF t] obtain ts' where
    ts': "getitem (frames s df0) (target cm) = Inr (Num ts')" and ne: "dropna ts' \<noteq> []"
    and tb: "Cat cats codes =
      Cat (format_labels (target_edges ts') 3) (map (cut_code (target_edges ts')) ts')"
    by blast
  have eq: "ts' = ts" using ts' assms by simp
  have "length cats = length (target_edges ts) - 1"
    using tb by (simp add: eq length_format_labels)
  also have "\<dots> = min (nunique (Num ts)) 10"
    using cut_edges_props(1) [OF ne] by (simp add: eq target_edges_def)
  finally show "length cats = min (card {v. Some v \<in> set ts}) 10"
    by (simp only: nunique_card)
next
  fix me mae
  assume m: "fst (me_mae_distr s df0 cm) = Inr (me, mae)"
  have b: "binner (frames s df0) cm = Inr (me, mae)"
    using m by (simp add: me_mae_distr_value)
  from binner_Inr [OF b] obtain ts' where
    ts': "getitem (frames s df0) (target cm) = Inr (Num ts')" and ne: "dropna ts' \<noteq> []"
    and l: "map fst mae = format_labels (target_edges ts') 3"
    by metis
  have eq: "ts' = ts" using ts' assms by simp
  have "length mae = length (map fst mae)" by simp
  also have "\<dots> = length (target_edges ts) - 1"
    by (simp only: l eq length_format_labels)
  also have "\<dots> = min (nunique (Num ts)) 10"
    using cut_edges_props(1) [OF ne] by (simp add: eq target_edges_def)
  finally show "length mae = min (card {v. Some v \<in> set ts}) 10"
    by (simp only: nunique_card)
qed

text \<open>
  Four rows with the targets 0, 1, 1 and 2: three distinct values, and \<^verbatim>\<open>binned_mae\<close> has
  three entries, not four. Thirteen rows with eleven distinct targets, one of them twice
  and one missing: the column has ten categories.
\<close>

theorem target_bins_count_witness:
  "getitem (frames (single_store ex_three) 0) (target ex_cm) =
     Inr (Num [Some 0, Some 1, Some 1, Some 2]) \<and>
   fst (me_mae_distr (single_store ex_three) 0 ex_cm) = Inr ex_three_distr \<and>
   length (snd ex_three_distr) = 3 \<and>
   card {v. Some v \<in> set [Some 0, Some 1, Some 1, Some (2::real)]} = 3 \<and>
   target_binned (frames (single_store ex_eleven) 0) ex_cm =
     Inr (Cat [Interval (99 / 100) 2, Interval 2 3, Interval 3 4, Interval 4 5, Interval 5 6,
               Interval 6 7, Interval 7 8, Interval 8 9, Interval 9 10, Interval 10 11]
              [Some 0, None, Some 0, Some 0, Some 1, Some 2, Some 3, Some 4, Some 5, Some 6,
               Some 7, Some 8, Some 9]) \<and>
   card {v. Some v \<in> set [Some 1, None, Some 1, Some 2, Some 3, Some 4, Some 5, Some 6, Some 7,
                          Some 8, Some 9, Some 10, Some (11::real)]} = 11"
proof -
  have g: "getitem (frames (single_store ex_three) 0) (target ex_cm) =
      Inr (Num [Some 0, Some 1, Some 1, Some 2])"
    by (simp add: single_store_def ex_three_def ex_cm_def getitem_def)
  have m: "fst (me_mae_distr (single_store ex_three) 0 ex_cm) =
      Inr (fst ex_three_distr, snd ex_three_distr)"
    by (simp add: me_mae_distr_value single_store_def ex_three_binner)
  have l: "length (snd ex_three_distr) = 3"
    by (simp add: ex_three_distr_def)
  have g': "getitem (frames (single_store ex_eleven) 0) (target ex_cm) =
      Inr (Num [Some 1, None, Some 1, Some 2, Some 3, Some 4, Some 5, Some 6, Some 7,
                Some 8, Some 9, Some 10, Some 11])"
    by (simp add: single_store_def ex_eleven_def ex_cm_def getitem_def)
  have t: "target_binned (frames (single_store ex_eleven) 0) ex_cm =
     Inr (Cat [Interval (99 / 100) 2, Interval 2 3, Interval 3 4, Interval 4 5, Interval 5 6,
               Interval 6 7, Interval 7 8, Interval 8 9, Interval 9 10, Interval 10 11]
              [Some 0, None, Some 0, Some 0, Some 1, Some 2, Some 3, Some 4, Some 5, Some 6,
               Some 7, Some 8, Some 9])"
    by (simp add: single_store_def ex_eleven_cut)
  have "{v. Some v \<in> set [Some 0, Some 1, Some 1, Some (2::real)]} = {0, 1, 2}"
    by auto
  then have 1: "card {v. Some v \<in> set [Some 0, Some 1, Some 1, Some (2::real)]} = 3"
    by simp
  have "{v. Some v \<in> set [Some 1, None, Some 1, Some 2, Some 3, Some 4, Some 5, Some 6,
                 Some 7, Some 8, Some 9, Some 10, Some (11::real)]} =
      {1, 2, 3, 4, 5, 6, 7, 8, 9, 10, 11}"
    by auto
  then have 2: "card {v. Some v \<in> set [Some 1, None, Some 1, Some 2, Some 3, Some 4, Some 5,
                 Some 6, Some 7, Some 8, Some 9, Some 10, Some (11::real)]} = 11"
    by simp
  from target_bins_count [OF g] target_bins_count [OF g'] g m t l 1 2
  show ?thesis by simp
qed

subsection \<open>Frames whose columns have the same number of rows\<close>

lemma wf_frame_nrows:
  assumes "wf_frame df" and "getitem df k = Inr c" and "getitem df k' = Inr c'"
  shows "nrows c = nrows c'"
proof -
  have in_set: "(j, d) \<in> set df" if "getitem df j = Inr d" for j d
    using that by (auto simp: getitem_def split: option.splits dest: map_of_SomeD)
  have first: "nrows d = nrows (snd (hd df))" if "(j, d) \<in> set df" for j d
  proof (cases df)
    case Nil
    then show ?thesis using that by simp
  next
    case (Cons a rest)
    obtain k0 c0 where a: "a = (k0, c0)" by (cases a)
    have "list_all (\<lambda>(k', c'). nrows c' = nrows c0) rest"
      using assms(1) by (simp add: wf_frame_def Cons a)
    then have "\<forall>p \<in> set rest. nrows (snd p) = nrows c0"
      by (auto simp: list_all_iff)
    then show ?thesis
      using that by (auto simp: Cons a)
  qed
  show ?thesis
    using first [OF in_set [OF assms(2)]] first [OF in_set [OF assms(3)]] by simp
qed

lemma sub_float_no_None:
  assumes "length ts = length ps"
    and "None \<notin> set (map (\<lambda>(x, y). sub_float x y) (zip ts ps))"
  shows "None \<notin> set ts \<and> None \<notin> set ps"
  using assms
proof (induction ts ps rule: list_induct2)
  case Nil
  then show ?case by simp
next
  case (Cons x xs y ys)
  then show ?case
    by (cases x; cases y) (auto simp: sub_float_def)
qed


subsection \<open>The counts of a returned pair\<close>


lemma binner_no_missing:
  assumes "wf_frame df" and "binner df cm = Inr (me, mae)"
    and "getitem df (target cm) = Inr (Num ts)" and "getitem df (prediction cm) = Inr (Num ps)"
  shows "None \<notin> set ts \<and> None \<notin> set ps"
proof -
  from binner_Inr [OF assms(2)] obtain ts' ps' data edges where
    ts: "getitem df (target cm) = Inr (Num ts')"
    and ps: "getitem df (prediction cm) = Inr (Num ps')"
    and data: "data = map (\<lambda>(x, y). sub_float x y) (zip ts' ps')"
    and e: "np_histogram_bin_edges data = Inr edges"
    by metis
  have eq: "ts' = ts" "ps' = ps" using ts ps assms(3,4) by simp_all
  have len: "length ts = length ps"
    using wf_frame_nrows [OF assms(1,3,4)] by (simp add: nrows_def)
  show ?thesis
    using len np_histogram_bin_edges_Inr(1) [OF e] unfolding data eq
    by (rule sub_float_no_None)
qed



text \<open>
  A returned pair means that no value was missing: a NaN among the errors makes
  \<^verbatim>\<open>np.histogram_bin_edges\<close> raise. So the valid rows of the theorem are all the rows.
\<close>

lemma me_mae_distr_no_missing:
  assumes "wf_frame (frames s df0)" and "fst (me_mae_distr s df0 cm) = Inr (me, mae)"
    and "getitem (frames s df0) (target cm) = Inr (Num ts)"
    and "getitem (frames s df0) (prediction cm) = Inr (Num ps)"
  shows "None \<notin> set ts \<and> None \<notin> set ps"
proof -
  have b: "binner (frames s df0) cm = Inr (me, mae)"
    using assms(2) by (simp add: me_mae_distr_value)
  from binner_no_missing [OF assms(1) b assms(3,4)] show ?thesis .
qed

subsection \<open>A frame that leaves a target bin empty\<close>

text \<open>
  The targets 1, 2 and 10 are cut into three bins, and no target lies in the middle one.
  \<^verbatim>\<open>apply\<close> calls the mean absolute error on the empty group too, and that call raises.
\<close>

lemma ex_gap_cut:
  "target_binned ex_gap ex_cm =
     Inr (Cat [Interval (991 / 1000) 4, Interval 4 7, Interval 7 10] [Some 0, Some 0, Some 2])"
proof -
  have upt4: "[0..<4] = [0, 1, 2, 3]" by (simp add: upt_rec)
  have l: "format_labels [991 / 1000, 4, 7, 10] 3 =
      [Interval (991 / 1000) 4, Interval 4 7, Interval 7 10]"
    by (simp add: format_labels_first round_frac_eval np_rint_numeral from_breaks_def)
  show ?thesis
    by (simp add: target_binned_def ex_gap_def ex_cm_def getitem_def nunique_def pd_cut_def
        cut_edges_def as_float_def np_linspace_def bins_to_cuts_def l cut_code_def upt4 Let_def)
qed

lemma ex_gap_raises:
  "fst (me_mae_distr (single_store ex_gap) 0 ex_cm) =
     Inl (ValueError ''Found array with 0 sample(s) while a minimum of 1 is required.'')"
proof -
  have upt3: "[0..<3] = [0, 1, 2]" by (simp add: upt_rec)
  note t = ex_gap_cut
  have e: "np_histogram_bin_edges [Some 0, Some 0, Some 0] = Inr [- (1 / 2), 1 / 2]"
    by (simp add: np_histogram_bin_edges_def get_outer_edges_def hist_bin_doane_def np_std_def
        np_mean_def np_linspace_def upt2)
  have d: "distributions (setitem ex_gap ''target_binned''
        (Cat [Interval (991 / 1000) 4, Interval 4 7, Interval 7 10] [Some 0, Some 0, Some 2])) ex_cm
      = Inl (ValueError ''Found array with 0 sample(s) while a minimum of 1 is required.'')"
    apply (simp add: distributions_def ex_gap_def ex_cm_def with_columns_def getitem_def
        series_sub_def sub_float_def as_float_def)
    apply (simp add: e np_histogram_def)
    apply (simp add: groupby_apply_def group_keys_def upt3 select_rows_def mask_list_def
        group_mae_def getitem_def with_columns_def)
    apply (simp add: mean_absolute_error_def check_reg_targets_def np_mean_def as_float_def)
    apply auto
    done
  have "binner ex_gap ex_cm =
      Inl (ValueError ''Found array with 0 sample(s) while a minimum of 1 is required.'')"
    by (simp only: binner_def t sum.case d)
  then show ?thesis
    by (simp add: me_mae_distr_value single_store_def)
qed



text \<open>
  C6. The claim fails on the code where a target bin is empty. The targets 1, 2 and 10
  are cut into the three bins (0.991, 4], (4, 7] and (7, 10]; two rows lie in the first
  bin, one in the last and none in the middle one. The claim has two entries for this
  frame, one for each bin with a row. The code does not skip the empty bin: it asks
  for the mean absolute error of its rows, of which there are none, and the call raises.
\<close>

theorem mae_distr_empty_bin_raises:
  "target_binned ex_gap ex_cm =
     Inr (Cat [Interval (991 / 1000) 4, Interval 4 7, Interval 7 10] [Some 0, Some 0, Some 2]) \<and>
   fst (me_mae_distr (single_store ex_gap) 0 ex_cm) =
     Inl (ValueError ''Found array with 0 sample(s) while a minimum of 1 is required.'')"
  by (simp only: ex_gap_cut ex_gap_raises)

subsection \<open>The end-to-end example\<close>

lemma ex_five_mse: "with_columns mean_squared_error ex_five ex_cm = Inr (14 / 5)"
  by (simp add: with_columns_def ex_five_def ex_cm_def getitem_def mean_squared_error_def
      check_reg_targets_def as_float_def np_mean_def)

lemma ex_five_r2: "with_columns r2_score_fn ex_five ex_cm = Inr (Some (- (2 / 5)))"
  by (simp add: with_columns_def ex_five_def ex_cm_def getitem_def r2_score_fn_def
      check_reg_targets_def as_float_def np_mean_def power2_eq_square)

lemma ex_five_cut:
  "target_binned ex_five ex_cm =
     Inr (Cat [Interval (249 / 250) (9 / 5), Interval (9 / 5) (13 / 5), Interval (13 / 5) (17 / 5),
               Interval (17 / 5) (21 / 5), Interval (21 / 5) 5]
              [Some 0, Some 1, Some 2, Some 3, Some 4])"
proof -
  have upt6: "[0..<6] = [0, 1, 2, 3, 4, 5]" by (simp add: upt_rec)
  have l: "format_labels [249 / 250, 9 / 5, 13 / 5, 17 / 5, 21 / 5, 5] 3 =
      [Interval (249 / 250) (9 / 5), Interval (9 / 5) (13 / 5), Interval (13 / 5) (17 / 5),
       Interval (17 / 5) (21 / 5), Interval (21 / 5) 5]"
    by (simp add: format_labels_first round_frac_eval np_rint_numeral from_breaks_def)
  show ?thesis
    by (simp add: target_binned_def ex_five_def ex_cm_def getitem_def nunique_def pd_cut_def
        cut_edges_def as_float_def np_linspace_def bins_to_cuts_def l cut_code_def upt6 Let_def)
qed

text \<open>
  The distributions of the example: one row in each of the five target bins. The edges
  of the histogram are those of Doane's rule for the five errors 0, 1, -2, 0, 3.
\<close>

lemma ex_five_binner:
  "\<exists>me. binner ex_five ex_cm =
     Inr (me, [(Interval (249 / 250) (9 / 5), 0, 1), (Interval (9 / 5) (13 / 5), 1, 1),
               (Interval (13 / 5) (17 / 5), 2, 1), (Interval (17 / 5) (21 / 5), 0, 1),
               (Interval (21 / 5) 5, 3, 1)])"
proof -
  have upt5: "[0..<5] = [0, 1, 2, 3, 4]" by (simp add: upt_rec)
  obtain edges where e: "np_histogram_bin_edges [Some 0, Some 1, Some (- 2), Some 0, Some 3] = Inr edges"
    using np_histogram_bin_edges_total [of "[Some 0, Some 1, Some (- 2), Some 0, Some 3]"] by auto
  have h: "np_histogram [Some 0, Some 1, Some (- 2), Some 0, Some 3] edges =
      Inr (hist_counts (dropna [Some 0, Some 1, Some (- 2), Some 0, Some 3]) edges, edges)"
    using np_histogram_bin_edges_Inr(2) [OF e] by (rule np_histogram_sorted)
  have "distributions (setitem ex_five ''target_binned''
      (Cat [Interval (249 / 250) (9 / 5), Interval (9 / 5) (13 / 5), Interval (13 / 5) (17 / 5),
               Interval (17 / 5) (21 / 5), Interval (21 / 5) 5]
              [Some 0, Some 1, Some 2, Some 3, Some 4])) ex_cm =
     Inr (me_entries (hist_counts (dropna [Some 0, Some 1, Some (- 2), Some 0, Some 3]) edges) edges,
       [(Interval (249 / 250) (9 / 5), 0, 1), (Interval (9 / 5) (13 / 5), 1, 1),
               (Interval (13 / 5) (17 / 5), 2, 1), (Interval (17 / 5) (21 / 5), 0, 1),
               (Interval (21 / 5) 5, 3, 1)])"
    apply (simp add: distributions_def ex_five_def ex_cm_def with_columns_def getitem_def
        series_sub_def sub_float_def as_float_def)
    apply (simp only: e h sum.case fst_conv snd_conv)
    apply (simp add: groupby_apply_def group_keys_def upt5 select_rows_def mask_list_def
        group_mae_def getitem_def with_columns_def)
    apply (simp add: mean_absolute_error_def check_reg_targets_def np_mean_def
        value_counts_sort_index_def series_loc_def as_float_def group_keys_def upt5 getitem_def)
    done
  then show ?thesis
    by (simp only: binner_def ex_five_cut sum.case) blast
qed

text \<open>
  C8. For the five rows (1, 1), (2, 1), (3, 5), (4, 4), (5, 2) as the current data and no
  reference data, \<open>calculate\<close> returns a record whose \<open>rmsa\<close> is 14/5 = 2.8, the mean squared
  error of the target and prediction columns of the frame, provided the analyzer returns.
\<close>

theorem example_rmsa:
  assumes "frames s cur = ex_five" and "an ex_five None ex_cm = Inr res"
  shows "with_columns mean_squared_error (frames s cur) ex_cm = Inr (14 / 5) \<and>
         (\<exists>r. fst (calculate an s
                  \<lparr>reference_data = None, current_data = Some cur, column_mapping = ex_cm\<rparr>
                  metrics) = Inr r \<and>
              rmsa r = Some (14 / 5))"
proof -
  let ?data = "\<lparr>reference_data = None, current_data = Some cur, column_mapping = ex_cm\<rparr>"
  obtain me mae where b: "binner ex_five ex_cm = Inr (me, mae)"
    using ex_five_binner by blast
  have "fst (calculate an s ?data metrics) =
      calculate_value an (frames s cur) (map_option (frames s) (reference_data ?data))
        (column_mapping ?data)"
    by (rule calculate_value_eq) simp_all
  also have "\<dots> = Inr (results res (Some (- (2 / 5))) (14 / 5) me mae None None)"
    by (simp add: assms calculate_value_def ex_five_r2 ex_five_mse b)
  finally have "fst (calculate an s ?data metrics) =
      Inr (results res (Some (- (2 / 5))) (14 / 5) me mae None None)" .
  moreover have "rmsa (results res (Some (- (2 / 5))) (14 / 5) me mae None None) = Some (14 / 5)"
    by (simp add: results_def)
  ultimately show ?thesis
    using assms(1) ex_five_mse by auto
qed

text \<open>The example frame in a store of its own, with the example analyzer.\<close>

theorem example_rmsa_witness:
  "frames (single_store ex_five) 0 = ex_five \<and>
   ex_analyzer ex_five None ex_cm =
     Inr \<lparr>reference_metrics = ex_metrics (6 / 5),
          RegressionPerformanceAnalyzerResults.error_bias = None\<rparr> \<and>
   (\<exists>r. fst (calculate ex_analyzer (single_store ex_five)
            \<lparr>reference_data = None, current_data = Some 0, column_mapping = ex_cm\<rparr> ()) = Inr r \<and>
        rmsa r = Some (14 / 5))"
proof -
  have f: "frames (single_store ex_five) 0 = ex_five"
    by (simp add: single_store_def)
  have a: "ex_analyzer ex_five None ex_cm =
     Inr \<lparr>reference_metrics = ex_metrics (6 / 5),
          RegressionPerformanceAnalyzerResults.error_bias = None\<rparr>"
    by (simp add: ex_analyzer_def ex_metrics_def with_columns_def ex_five_def ex_cm_def
        getitem_def mean_absolute_error_def check_reg_targets_def as_float_def np_mean_def)
  from example_rmsa [where s = "single_store ex_five" and cur = 0 and an = ex_analyzer
      and metrics = "()", OF f a] f a show ?thesis
    by simp
qed

end
